theory Spec2Isabelle
  imports Main "HOL-Library.Sublist"
begin

section \<open>Regular expressions of the IPv4 validator\<close>

text \<open>
  \<^verbatim>\<open>isValidIPv4\<close> tests its argument against a regular expression literal that is
  anchored at both ends. The constructs that literal uses are a literal character, a
  character class, concatenation, alternation, the optional \<^verbatim>\<open>?\<close> and the counted
  repetition \<^verbatim>\<open>{3}\<close>. Strings are lists of characters; every character the expression
  can match is ASCII, so a string holding anything else is rejected here as it is by
  the JavaScript engine.
\<close>

datatype regex =
    Eps
  | Lit char
  | Cls "char list"
  | Seq regex regex
  | Alt regex regex
  | Opt regex

text \<open>The class \<^verbatim>\<open>[a-b]\<close>: the characters whose codes lie between those of its ends.\<close>

definition char_range :: "char \<Rightarrow> char \<Rightarrow> char list" where
  "char_range lo hi = map char_of [of_char lo ..< Suc (of_char hi) :: nat]"

text \<open>\<^verbatim>\<open>r{n}\<close> is \<open>n\<close> copies of \<open>r\<close> in sequence.\<close>

fun times :: "nat \<Rightarrow> regex \<Rightarrow> regex" where
  "times 0 r = Eps"
| "times (Suc n) r = Seq r (times n r)"

text \<open>
  \<open>matches r s\<close> lists what is left of \<open>s\<close> after each way of matching \<open>r\<close> at its
  start, in the order a backtracking matcher tries them (the left alternative first,
  an optional part taken before it is skipped).
\<close>

fun matches :: "regex \<Rightarrow> string \<Rightarrow> string list" where
  "matches Eps s = [s]"
| "matches (Lit c) s = (case s of [] \<Rightarrow> [] | x # xs \<Rightarrow> if x = c then [xs] else [])"
| "matches (Cls cs) s = (case s of [] \<Rightarrow> [] | x # xs \<Rightarrow> if x \<in> set cs then [xs] else [])"
| "matches (Seq r1 r2) s = concat (map (matches r2) (matches r1 s))"
| "matches (Alt r1 r2) s = matches r1 s @ matches r2 s"
| "matches (Opt r) s = matches r s @ [s]"

text \<open>\<^verbatim>\<open>/^r$/.test(s)\<close>: some way of matching \<open>r\<close> consumes the whole string.\<close>

definition regex_test :: "regex \<Rightarrow> string \<Rightarrow> bool" where
  "regex_test r s = ([] \<in> set (matches r s))"

section \<open>The validator\<close>

text \<open>
  \<^verbatim>\<open>(?:25[0-5]|2[0-4][0-9]|[01]?[0-9][0-9]?)\<close>, the sub-expression for one octet.
\<close>

definition octet_regex :: regex where
  "octet_regex =
     Alt (Seq (Lit CHR ''2'') (Seq (Lit CHR ''5'') (Cls (char_range CHR ''0'' CHR ''5''))))
    (Alt (Seq (Lit CHR ''2'') (Seq (Cls (char_range CHR ''0'' CHR ''4''))
                                   (Cls (char_range CHR ''0'' CHR ''9''))))
         (Seq (Opt (Cls ''01'')) (Seq (Cls (char_range CHR ''0'' CHR ''9''))
                                      (Opt (Cls (char_range CHR ''0'' CHR ''9''))))))"

text \<open>\<^verbatim>\<open>/^(?:octet\.){3}octet$/\<close>\<close>

definition ipv4_regex :: regex where
  "ipv4_regex = Seq (times 3 (Seq octet_regex (Lit CHR ''.''))) octet_regex"

definition isValidIPv4 :: "string \<Rightarrow> bool" where
  "isValidIPv4 ip = regex_test ipv4_regex ip"

section \<open>Values and records of the lookup endpoint\<close>

text \<open>
  A property of the response is a value, \<^verbatim>\<open>null\<close> or \<^verbatim>\<open>undefined\<close>. Reading a property
  that an object does not have gives \<^verbatim>\<open>undefined\<close>.
\<close>

datatype 'a jsopt = Undefined | Null | Val 'a

fun get_prop :: "'a option \<Rightarrow> 'a jsopt" where
  "get_prop None = Undefined"
| "get_prop (Some v) = Val v"

text \<open>
  The records a database reader returns. The readers belong to the \<^verbatim>\<open>maxmind\<close> package,
  which is not part of the repository; the types below hold the properties the endpoint
  reads, each optional, since the endpoint itself tests or copies them without assuming
  they are there. \<open>names\<close> maps a language code to a name. Numbers are only copied, so
  the type \<open>'f\<close> of a coordinate is left open; an autonomous-system number is a natural
  number.
\<close>

type_synonym names = "string \<rightharpoonup> string"

record place =
  names :: "names option"
  iso_code :: "string option"

record postal =
  code :: "string option"

record 'f db_location =
  db_latitude :: "'f option"
  db_longitude :: "'f option"
  time_zone :: "string option"

record country_data =
  db_country :: "place option"

record 'f city_data = country_data +
  subdivisions :: "place list option"
  db_city :: "place option"
  db_postal :: "postal option"
  db_location :: "'f db_location option"

record asn_data =
  autonomous_system_number :: "nat option"
  autonomous_system_organization :: "string option"

text \<open>
  A reader is its \<^verbatim>\<open>get\<close> method: for an address it throws, returns \<^verbatim>\<open>null\<close> (no record)
  or returns a record. The three global variables hold a reader or \<^verbatim>\<open>null\<close>.
\<close>

datatype 'r lookup = Throws | Miss | Hit 'r

type_synonym 'r reader = "string \<Rightarrow> 'r lookup"

record 'f databases =
  ipCountryDB :: "country_data reader option"
  ipCityDB :: "'f city_data reader option"
  ipAsnDB :: "asn_data reader option"

datatype db_type = Country | City | Asn

datatype exn = TypeError | ReaderError

text \<open>The object \<^verbatim>\<open>result\<close> that a successful lookup sends.\<close>

record 'f coordinates =
  latitude :: "'f jsopt"
  longitude :: "'f jsopt"

record 'f location =
  country :: "string jsopt"
  countryCode :: "string jsopt"
  region :: "string jsopt"
  city :: "string jsopt"
  zipCode :: "string jsopt"
  coordinates :: "'f coordinates"
  timezone :: "string jsopt"

record network =
  isp :: "string jsopt"
  organization :: "string jsopt"
  asn :: "nat jsopt"
  asName :: "string jsopt"

record 'f result =
  statusCode :: nat
  status :: string
  ip :: string
  location :: "'f location"
  network :: network

datatype 'f body = Failure string string | Success "'f result"

record 'f response =
  http_status :: nat
  body :: "'f body"

text \<open>
  The request: the optional path parameter \<^verbatim>\<open>req.params.ip\<close> and the peer address
  \<^verbatim>\<open>req.ip\<close>, which Express leaves \<^verbatim>\<open>undefined\<close> when the connection has none.
\<close>

record request =
  params_ip :: "string option"
  req_ip :: "string option"

section \<open>String helpers\<close>

text \<open>\<^verbatim>\<open>s.replace(pat, rep)\<close> with a string pattern replaces the first occurrence only.\<close>

fun replace_first :: "string \<Rightarrow> string \<Rightarrow> string \<Rightarrow> string" where
  "replace_first pat rep [] = (if pat = [] then rep else [])"
| "replace_first pat rep (x # xs) =
     (if prefix pat (x # xs) then rep @ drop (length pat) (x # xs)
      else x # replace_first pat rep xs)"

text \<open>The decimal digits of a natural number, as a template literal prints an integer.\<close>

definition digit_char :: "nat \<Rightarrow> char" where
  "digit_char d = char_of (48 + d)"

function nat_to_string :: "nat \<Rightarrow> string" where
  "nat_to_string n =
     (if n < 10 then [digit_char n] else nat_to_string (n div 10) @ [digit_char (n mod 10)])"
  by pat_completeness auto
termination
  by (relation "measure (\<lambda>n. n)") auto

declare nat_to_string.simps [simp del]

text \<open>\<^verbatim>\<open>`AS${v}`\<close>: the template literal converts \<open>v\<close> to a string.\<close>

fun as_label :: "nat jsopt \<Rightarrow> string" where
  "as_label Undefined = ''AS'' @ ''undefined''"
| "as_label Null = ''AS'' @ ''null''"
| "as_label (Val n) = ''AS'' @ nat_to_string n"

section \<open>The lookup endpoint\<close>

text \<open>\<^verbatim>\<open>req.params.ip || req.ip.replace("::ffff:", "")\<close>; the empty string is falsy.\<close>

definition ipToLookup :: "request \<Rightarrow> exn + string" where
  "ipToLookup req =
     (case params_ip req of
        Some p \<Rightarrow>
          if p \<noteq> [] then Inr p
          else (case req_ip req of
                  None \<Rightarrow> Inl TypeError
                | Some a \<Rightarrow> Inr (replace_first ''::ffff:'' [] a))
      | None \<Rightarrow>
          (case req_ip req of
             None \<Rightarrow> Inl TypeError
           | Some a \<Rightarrow> Inr (replace_first ''::ffff:'' [] a)))"

definition default_location :: "'f location" where
  "default_location =
     \<lparr>country = Val ''Unknown'', countryCode = Val ''XX'', region = Val ''Unknown'',
      city = Val ''Unknown'', zipCode = Val ''Unknown'',
      coordinates = \<lparr>latitude = Null, longitude = Null\<rparr>,
      timezone = Val ''Unknown''\<rparr>"

definition default_network :: network where
  "default_network =
     \<lparr>isp = Val ''Unknown'', organization = Val ''Unknown'', asn = Null,
      asName = Val ''Unknown''\<rparr>"

definition default_result :: "string \<Rightarrow> 'f result" where
  "default_result ipToLookup' =
     \<lparr>statusCode = 200, status = ''success'', ip = ipToLookup',
      location = default_location, network = default_network\<rparr>"

text \<open>
  The guarded assignments. Each returns the updated block, or the \<^verbatim>\<open>TypeError\<close> that
  reading \<^verbatim>\<open>.en\<close> of a missing \<^verbatim>\<open>names\<close> raises.
\<close>

fun set_country :: "place option \<Rightarrow> 'f location \<Rightarrow> exn + 'f location" where
  "set_country None loc = Inr loc"
| "set_country (Some c) loc =
     (case names c of
        None \<Rightarrow> Inl TypeError
      | Some n \<Rightarrow> Inr (loc\<lparr>country := get_prop (n ''en''), countryCode := get_prop (iso_code c)\<rparr>))"

fun set_region :: "place list option \<Rightarrow> 'f location \<Rightarrow> exn + 'f location" where
  "set_region None loc = Inr loc"
| "set_region (Some []) loc = Inr loc"
| "set_region (Some (s # rest)) loc =
     (case names s of
        None \<Rightarrow> Inl TypeError
      | Some n \<Rightarrow> Inr (loc\<lparr>region := get_prop (n ''en'')\<rparr>))"

fun set_city :: "place option \<Rightarrow> 'f location \<Rightarrow> exn + 'f location" where
  "set_city None loc = Inr loc"
| "set_city (Some c) loc =
     (case names c of
        None \<Rightarrow> Inl TypeError
      | Some n \<Rightarrow> Inr (loc\<lparr>city := get_prop (n ''en'')\<rparr>))"

fun set_postal :: "postal option \<Rightarrow> 'f location \<Rightarrow> 'f location" where
  "set_postal None loc = loc"
| "set_postal (Some p) loc = loc\<lparr>zipCode := get_prop (code p)\<rparr>"

fun set_location :: "'f db_location option \<Rightarrow> 'f location \<Rightarrow> 'f location" where
  "set_location None loc = loc"
| "set_location (Some l) loc =
     loc\<lparr>coordinates := \<lparr>latitude = get_prop (db_latitude l), longitude = get_prop (db_longitude l)\<rparr>,
         timezone := get_prop (time_zone l)\<rparr>"

definition from_city :: "'f city_data \<Rightarrow> 'f location \<Rightarrow> exn + 'f location" where
  "from_city cityData loc =
     (case set_country (db_country cityData) loc of
        Inl e \<Rightarrow> Inl e
      | Inr loc1 \<Rightarrow>
          (case set_region (subdivisions cityData) loc1 of
             Inl e \<Rightarrow> Inl e
           | Inr loc2 \<Rightarrow>
               (case set_city (db_city cityData) loc2 of
                  Inl e \<Rightarrow> Inl e
                | Inr loc3 \<Rightarrow>
                    Inr (set_location (db_location cityData)
                          (set_postal (db_postal cityData) loc3)))))"

text \<open>
  Location: the city reader when there is one, the country reader only otherwise.
  The second component lists the readers queried.
\<close>

definition lookup_location ::
  "'f databases \<Rightarrow> string \<Rightarrow> 'f location \<Rightarrow> (exn + 'f location) \<times> db_type list" where
  "lookup_location dbs ipToLookup' loc =
     (case ipCityDB dbs of
        Some cityDB \<Rightarrow>
          (case cityDB ipToLookup' of
             Throws \<Rightarrow> (Inl ReaderError, [City])
           | Miss \<Rightarrow> (Inr loc, [City])
           | Hit cityData \<Rightarrow> (from_city cityData loc, [City]))
      | None \<Rightarrow>
          (case ipCountryDB dbs of
             Some countryDB \<Rightarrow>
               (case countryDB ipToLookup' of
                  Throws \<Rightarrow> (Inl ReaderError, [Country])
                | Miss \<Rightarrow> (Inr loc, [Country])
                | Hit countryData \<Rightarrow> (set_country (db_country countryData) loc, [Country]))
           | None \<Rightarrow> (Inr loc, [])))"

definition from_asn :: "asn_data \<Rightarrow> network" where
  "from_asn asnData =
     \<lparr>isp = get_prop (autonomous_system_organization asnData),
      organization = get_prop (autonomous_system_organization asnData),
      asn = get_prop (autonomous_system_number asnData),
      asName = Val (as_label (get_prop (autonomous_system_number asnData)))\<rparr>"

definition lookup_network ::
  "'f databases \<Rightarrow> string \<Rightarrow> network \<Rightarrow> (exn + network) \<times> db_type list" where
  "lookup_network dbs ipToLookup' net =
     (case ipAsnDB dbs of
        Some asnDB \<Rightarrow>
          (case asnDB ipToLookup' of
             Throws \<Rightarrow> (Inl ReaderError, [Asn])
           | Miss \<Rightarrow> (Inr net, [Asn])
           | Hit asnData \<Rightarrow> (Inr (from_asn asnData), [Asn]))
      | None \<Rightarrow> (Inr net, []))"

definition invalid_ip :: "'f response" where
  "invalid_ip =
     \<lparr>http_status = 400,
      body = Failure ''Invalid IP address format'' ''Please provide a valid IPv4 address.''\<rparr>"

definition unavailable :: "'f response" where
  "unavailable =
     \<lparr>http_status = 503,
      body = Failure ''Service unavailable''
               ''IP databases are not loaded. Please check server configuration.''\<rparr>"

definition server_error :: "'f response" where
  "server_error =
     \<lparr>http_status = 500, body = Failure ''Server error'' ''Failed to perform IP lookup''\<rparr>"

definition ok :: "'f result \<Rightarrow> 'f response" where
  "ok r = \<lparr>http_status = 200, body = Success r\<rparr>"

text \<open>
  The handler of \<^verbatim>\<open>GET /api/lookup/:ip?\<close>: the response and the readers it queried, in
  order. Whatever is thrown inside is caught and answered with status 500.
\<close>

definition api_lookup :: "'f databases \<Rightarrow> request \<Rightarrow> 'f response \<times> db_type list" where
  "api_lookup dbs req =
     (case ipToLookup req of
        Inl e \<Rightarrow> (server_error, [])
      | Inr ipToLookup' \<Rightarrow>
          if \<not> isValidIPv4 ipToLookup' then (invalid_ip, [])
          else if ipCityDB dbs = None \<and> ipCountryDB dbs = None \<and> ipAsnDB dbs = None
          then (unavailable, [])
          else
            (case lookup_location dbs ipToLookup' default_location of
               (Inl e, q1) \<Rightarrow> (server_error, q1)
             | (Inr loc, q1) \<Rightarrow>
                 (case lookup_network dbs ipToLookup' default_network of
                    (Inl e, q2) \<Rightarrow> (server_error, q1 @ q2)
                  | (Inr net, q2) \<Rightarrow>
                      (ok ((default_result ipToLookup')\<lparr>location := loc, network := net\<rparr>),
                       q1 @ q2))))"

section \<open>The refresh job\<close>

text \<open>
  \<^verbatim>\<open>downloadAndExtractDatabase\<close> works inside the data directory. A node of the file system
  is a file with its content or a directory with its entries, in the order
  \<^verbatim>\<open>readdirSync\<close> lists them. The data directory maps a name to the node of that name;
  a path below it is the list of its components, so \<^verbatim>\<open>path.join(dir, item)\<close> appends one.
\<close>

datatype fsnode = File string | Dir "(string \<times> fsnode) list"

type_synonym data_dir = "string \<rightharpoonup> fsnode"

text \<open>
  \<^verbatim>\<open>findMmdbFile\<close>: the entries of \<open>dir\<close> in order; a directory is searched before the
  next entry is looked at, and the first file whose name ends in \<^verbatim>\<open>.mmdb\<close> is returned.
\<close>

fun findMmdbFile :: "string list \<Rightarrow> (string \<times> fsnode) list \<Rightarrow> string list option" where
  "findMmdbFile dir [] = None"
| "findMmdbFile dir ((item, Dir sub) # items) =
     (case findMmdbFile (dir @ [item]) sub of
        Some nestedResult \<Rightarrow> Some nestedResult
      | None \<Rightarrow> findMmdbFile dir items)"
| "findMmdbFile dir ((item, File content) # items) =
     (if suffix ''.mmdb'' item then Some (dir @ [item]) else findMmdbFile dir items)"

text \<open>The node a path names below a list of entries (the first entry of each name).\<close>

fun resolve :: "(string \<times> fsnode) list \<Rightarrow> string list \<Rightarrow> fsnode option" where
  "resolve es [] = None"
| "resolve es [n] = map_of es n"
| "resolve es (n # m # p) =
     (case map_of es n of Some (Dir sub) \<Rightarrow> resolve sub (m # p) | _ \<Rightarrow> None)"

text \<open>\<^verbatim>\<open>type.charAt(0).toUpperCase() + type.slice(1)\<close>, for the ASCII letters.\<close>

definition toUpperCase :: "char \<Rightarrow> char" where
  "toUpperCase c =
     (if c \<in> set ''abcdefghijklmnopqrstuvwxyz'' then char_of (of_char c - (32 :: nat)) else c)"

fun capitalize :: "string \<Rightarrow> string" where
  "capitalize [] = []"
| "capitalize (c # cs) = toUpperCase c # cs"

definition tempFile :: "string \<Rightarrow> string" where
  "tempFile type = type @ ''.tar.gz''"

definition tempDir :: "string \<Rightarrow> string" where
  "tempDir type = ''temp_'' @ type"

definition destPath :: "string \<Rightarrow> string" where
  "destPath type = ''GeoLite2-'' @ capitalize type @ ''.mmdb''"

text \<open>
  What the job can throw: the download fails, \<^verbatim>\<open>tar.extract\<close> rejects, no payload is
  found (the \<^verbatim>\<open>throw\<close> of the source), or a file-system call fails because a directory
  stands where a file is expected or the other way round.
\<close>

datatype job_error = TransferError | ExtractionError | MmdbNotFound | FsError

text \<open>
  The job ends by logging success, by logging the error it caught, or, when the
  clean-up of the \<^verbatim>\<open>catch\<close> block throws itself, by rejecting.
\<close>

datatype job_result = Updated | Caught job_error | Rejected job_error

text \<open>
  The \<^verbatim>\<open>catch\<close> block: log the error, and unlink the archive when it exists.
  \<^verbatim>\<open>unlinkSync\<close> throws on a directory.
\<close>

definition catch_block :: "string \<Rightarrow> job_error \<Rightarrow> data_dir \<Rightarrow> job_result \<times> data_dir" where
  "catch_block type error fs =
     (case fs (tempFile type) of
        None \<Rightarrow> (Caught error, fs)
      | Some (File content) \<Rightarrow> (Caught error, fs(tempFile type := None))
      | Some (Dir es) \<Rightarrow> (Rejected FsError, fs))"

text \<open>
  The steps after extraction: find the payload, copy it to its destination, remove the
  archive and the scratch directory. \<open>es\<close> are the entries of the scratch directory.
\<close>

definition publish_and_clean ::
  "string \<Rightarrow> (string \<times> fsnode) list \<Rightarrow> data_dir \<Rightarrow> job_result \<times> data_dir" where
  "publish_and_clean type es fs =
     (case findMmdbFile [tempDir type] es of
        None \<Rightarrow> catch_block type MmdbNotFound fs
      | Some mmdbFilePath \<Rightarrow>
          (case resolve es (tl mmdbFilePath) of
             Some (File content) \<Rightarrow>
               (case fs (destPath type) of
                  Some (Dir d) \<Rightarrow> catch_block type FsError fs
                | _ \<Rightarrow>
                    (let fs1 = fs(destPath type \<mapsto> File content) in
                     case fs1 (tempFile type) of
                       Some (File archive) \<Rightarrow>
                         (Updated, (fs1(tempFile type := None))(tempDir type := None))
                     | _ \<Rightarrow> catch_block type FsError fs1))
           | _ \<Rightarrow> catch_block type FsError fs))"

text \<open>
  \<^verbatim>\<open>downloadAndExtractDatabase(type, url)\<close>. The two calls that leave the process are
  parameters: \<open>response\<close> is what the download returns (\<open>None\<close> when the request
  fails), and \<open>untar archive es\<close> is what \<^verbatim>\<open>tar.extract\<close> makes of a scratch directory
  with entries \<open>es\<close>, together with whether it resolved.
\<close>

definition downloadAndExtractDatabase ::
  "string \<Rightarrow> string option \<Rightarrow> (string \<Rightarrow> (string \<times> fsnode) list \<Rightarrow> bool \<times> (string \<times> fsnode) list)
     \<Rightarrow> data_dir \<Rightarrow> job_result \<times> data_dir" where
  "downloadAndExtractDatabase type response untar fs =
     (case response of
        None \<Rightarrow> catch_block type TransferError fs
      | Some archive \<Rightarrow>
          (case fs (tempFile type) of
             Some (Dir d) \<Rightarrow> catch_block type FsError fs
           | _ \<Rightarrow>
               (let fs1 = fs(tempFile type \<mapsto> File archive);
                    fs2 = (if fs1 (tempDir type) = None then fs1(tempDir type \<mapsto> Dir [])
                           else fs1)
                in case fs2 (tempDir type) of
                     Some (Dir es) \<Rightarrow>
                       (case untar archive es of
                          (False, es') \<Rightarrow>
                            catch_block type ExtractionError (fs2(tempDir type \<mapsto> Dir es'))
                        | (True, es') \<Rightarrow>
                            publish_and_clean type es' (fs2(tempDir type \<mapsto> Dir es')))
                   | _ \<Rightarrow> catch_block type ExtractionError fs2)))"

text \<open>
  Every payload file below a list of entries, in the order the walk of \<^verbatim>\<open>findMmdbFile\<close>
  would meet them; used to say which match the search returns.
\<close>

fun mmdb_files :: "string list \<Rightarrow> (string \<times> fsnode) list \<Rightarrow> string list list" where
  "mmdb_files dir [] = []"
| "mmdb_files dir ((item, Dir sub) # items) =
     mmdb_files (dir @ [item]) sub @ mmdb_files dir items"
| "mmdb_files dir ((item, File content) # items) =
     (if suffix ''.mmdb'' item then [dir @ [item]] else []) @ mmdb_files dir items"

text \<open>The names in a directory are distinct, at every level.\<close>

fun distinct_names :: "(string \<times> fsnode) list \<Rightarrow> bool" where
  "distinct_names [] = True"
| "distinct_names ((n, File content) # es) = (n \<notin> fst ` set es \<and> distinct_names es)"
| "distinct_names ((n, Dir sub) # es) =
     (n \<notin> fst ` set es \<and> distinct_names sub \<and> distinct_names es)"

section \<open>Dotted-quad syntax\<close>

text \<open>
  The strings an expression matches, as a set: the reading of the regular expression
  that does not depend on the order in which a matcher tries alternatives.
\<close>

primrec lang :: "regex \<Rightarrow> string set" where
  "lang Eps = {[]}"
| "lang (Lit c) = {[c]}"
| "lang (Cls cs) = {[c] | c. c \<in> set cs}"
| "lang (Seq r1 r2) = {u @ v | u v. u \<in> lang r1 \<and> v \<in> lang r2}"
| "lang (Alt r1 r2) = lang r1 \<union> lang r2"
| "lang (Opt r) = insert [] (lang r)"

text \<open>
  Dotted-quad syntax in the words of the specification: four dot-separated octets,
  each a decimal numeral with a value from 0 to 255. \<open>split_on\<close> cuts a string at every
  occurrence of the separator, as \<^verbatim>\<open>String.prototype.split\<close> does.
\<close>

fun split_on :: "char \<Rightarrow> string \<Rightarrow> string list" where
  "split_on sep [] = [[]]"
| "split_on sep (x # xs) =
     (if x = sep then [] # split_on sep xs
      else (case split_on sep xs of
              [] \<Rightarrow> [[x]]
            | w # ws \<Rightarrow> (x # w) # ws))"

definition is_digit :: "char \<Rightarrow> bool" where
  "is_digit c = (c \<in> set ''0123456789'')"

definition digit_value :: "char \<Rightarrow> nat" where
  "digit_value c = of_char c - 48"

definition decimal_value :: "string \<Rightarrow> nat" where
  "decimal_value s = foldl (\<lambda>n c. 10 * n + digit_value c) 0 s"

definition octet_0_255 :: "string \<Rightarrow> bool" where
  "octet_0_255 s = (s \<noteq> [] \<and> list_all is_digit s \<and> decimal_value s \<le> 255)"

definition strict_dotted_quad :: "string \<Rightarrow> bool" where
  "strict_dotted_quad s =
     (case split_on CHR ''.'' s of
        [a, b, c, d] \<Rightarrow> octet_0_255 a \<and> octet_0_255 b \<and> octet_0_255 c \<and> octet_0_255 d
      | _ \<Rightarrow> False)"

section \<open>Auxiliary facts about the validator\<close>

lemma matches_lang: "t \<in> set (matches r s) \<longleftrightarrow> (\<exists>u. s = u @ t \<and> u \<in> lang r)"
proof (induction r arbitrary: s t)
  case (Lit c)
  show ?case by (cases s) auto
next
  case (Cls cs)
  show ?case by (cases s) auto
next
  case (Seq r1 r2)
  show ?case
  proof
    assume "t \<in> set (matches (Seq r1 r2) s)"
    then obtain m where "m \<in> set (matches r1 s)" and "t \<in> set (matches r2 m)"
      by auto
    with Seq obtain u v where "s = u @ m" "u \<in> lang r1" "m = v @ t" "v \<in> lang r2"
      by blast
    then have "s = (u @ v) @ t \<and> u @ v \<in> lang (Seq r1 r2)"
      by auto
    then show "\<exists>w. s = w @ t \<and> w \<in> lang (Seq r1 r2)"
      by blast
  next
    assume "\<exists>w. s = w @ t \<and> w \<in> lang (Seq r1 r2)"
    then obtain u v where s: "s = (u @ v) @ t" and u: "u \<in> lang r1" and v: "v \<in> lang r2"
      by auto
    from s u Seq.IH(1) [of "v @ t" s] have "v @ t \<in> set (matches r1 s)"
      by auto
    moreover from v Seq.IH(2) [of t "v @ t"] have "t \<in> set (matches r2 (v @ t))"
      by auto
    ultimately show "t \<in> set (matches (Seq r1 r2) s)"
      by auto
  qed
qed auto

lemma regex_test_lang: "regex_test r s \<longleftrightarrow> s \<in> lang r"
  by (simp add: regex_test_def matches_lang)

lemma digit_cases:
  "is_digit c \<Longrightarrow> digit_value c \<le> 9"
  "c \<in> set ''01'' \<longleftrightarrow> is_digit c \<and> digit_value c \<le> 1"
  "c \<in> set ''01234'' \<longleftrightarrow> is_digit c \<and> digit_value c \<le> 4"
  "c \<in> set ''012345'' \<longleftrightarrow> is_digit c \<and> digit_value c \<le> 5"
  "c = CHR ''2'' \<longleftrightarrow> is_digit c \<and> digit_value c = 2"
  "c = CHR ''5'' \<longleftrightarrow> is_digit c \<and> digit_value c = 5"
  by (auto simp: is_digit_def digit_value_def)

lemma not_dot: "is_digit c \<Longrightarrow> c \<noteq> CHR ''.''"
  by (auto simp: is_digit_def)

lemma ranges:
  "char_range CHR ''0'' CHR ''9'' = ''0123456789''"
  "char_range CHR ''0'' CHR ''5'' = ''012345''"
  "char_range CHR ''0'' CHR ''4'' = ''01234''"
  by code_simp+

lemma lang_SeqI: "u \<in> lang r1 \<Longrightarrow> v \<in> lang r2 \<Longrightarrow> u @ v \<in> lang (Seq r1 r2)"
  by auto

lemma lang_Seq_Lit: "w \<in> lang (Seq (Lit c) r) \<longleftrightarrow> (\<exists>v. w = c # v \<and> v \<in> lang r)"
  by auto

lemma lang_Seq_Cls: "w \<in> lang (Seq (Cls cs) r) \<longleftrightarrow> (\<exists>c v. w = c # v \<and> c \<in> set cs \<and> v \<in> lang r)"
  by auto (metis append_Cons append_Nil)

lemma lang_Seq_Opt: "w \<in> lang (Seq (Opt r1) r2) \<longleftrightarrow> w \<in> lang r2 \<or> w \<in> lang (Seq r1 r2)"
  by auto

lemma lang_Cls: "w \<in> lang (Cls cs) \<longleftrightarrow> (\<exists>c. w = [c] \<and> c \<in> set cs)"
  by auto

lemma lang_Opt: "w \<in> lang (Opt r) \<longleftrightarrow> w = [] \<or> w \<in> lang r"
  by auto

lemma lang_Alt: "w \<in> lang (Alt r1 r2) \<longleftrightarrow> w \<in> lang r1 \<or> w \<in> lang r2"
  by simp

lemma short_list:
  assumes "w \<noteq> []" and "length w \<le> 3"
  shows "(\<exists>a. w = [a]) \<or> (\<exists>a b. w = [a, b]) \<or> (\<exists>a b c. w = [a, b, c])"
proof (cases w)
  case Nil
  with assms show ?thesis by simp
next
  case w: (Cons a w1)
  show ?thesis
  proof (cases w1)
    case Nil
    with w show ?thesis by simp
  next
    case w1: (Cons b w2)
    show ?thesis
    proof (cases w2)
      case Nil
      with w w1 show ?thesis by simp
    next
      case (Cons c w3)
      with w w1 assms(2) show ?thesis by simp
    qed
  qed
qed

lemma decimal_value_simps:
  "decimal_value [a] = digit_value a"
  "decimal_value [a, b] = 10 * digit_value a + digit_value b"
  "decimal_value [a, b, c] = 100 * digit_value a + 10 * digit_value b + digit_value c"
  by (simp_all add: decimal_value_def)

lemma lang_two:
  "w \<in> lang (Seq (Cls A) (Cls B)) \<longleftrightarrow> (\<exists>a b. w = [a, b] \<and> a \<in> set A \<and> b \<in> set B)"
  unfolding lang_Seq_Cls lang_Cls by blast

lemma lang_one_or_two:
  "w \<in> lang (Seq (Cls A) (Opt (Cls B))) \<longleftrightarrow>
     (\<exists>a. w = [a] \<and> a \<in> set A) \<or> (\<exists>a b. w = [a, b] \<and> a \<in> set A \<and> b \<in> set B)"
  unfolding lang_Seq_Cls lang_Opt lang_Cls by blast

lemma lang_first:
  "w \<in> lang (Seq (Lit x) (Seq (Lit y) (Cls C))) \<longleftrightarrow> (\<exists>c. w = [x, y, c] \<and> c \<in> set C)"
  unfolding lang_Seq_Lit lang_Cls by blast

lemma lang_second:
  "w \<in> lang (Seq (Lit x) (Seq (Cls B) (Cls C))) \<longleftrightarrow>
     (\<exists>b c. w = [x, b, c] \<and> b \<in> set B \<and> c \<in> set C)"
  unfolding lang_Seq_Lit lang_two by blast

lemma lang_third:
  "w \<in> lang (Seq (Opt (Cls A)) (Seq (Cls B) (Opt (Cls C)))) \<longleftrightarrow>
     (\<exists>b. w = [b] \<and> b \<in> set B)
     \<or> (\<exists>b c. w = [b, c] \<and> b \<in> set B \<and> c \<in> set C)
     \<or> (\<exists>a b. w = [a, b] \<and> a \<in> set A \<and> b \<in> set B)
     \<or> (\<exists>a b c. w = [a, b, c] \<and> a \<in> set A \<and> b \<in> set B \<and> c \<in> set C)"
proof -
  have "w \<in> lang (Seq (Cls A) (Seq (Cls B) (Opt (Cls C)))) \<longleftrightarrow>
      (\<exists>a b. w = [a, b] \<and> a \<in> set A \<and> b \<in> set B)
      \<or> (\<exists>a b c. w = [a, b, c] \<and> a \<in> set A \<and> b \<in> set B \<and> c \<in> set C)"
    unfolding lang_Seq_Cls [of w A] lang_one_or_two by blast
  then show ?thesis
    unfolding lang_Seq_Opt lang_one_or_two by blast
qed

lemma octet_shape:
  "w \<in> lang (Alt (Seq (Lit x) (Seq (Lit y) (Cls d05)))
            (Alt (Seq (Lit x) (Seq (Cls d04) (Cls d09)))
                 (Seq (Opt (Cls d01)) (Seq (Cls d09) (Opt (Cls d09))))))
    \<longleftrightarrow> (\<exists>c. w = [x, y, c] \<and> c \<in> set d05)
      \<or> (\<exists>b c. w = [x, b, c] \<and> b \<in> set d04 \<and> c \<in> set d09)
      \<or> (\<exists>b. w = [b] \<and> b \<in> set d09)
      \<or> (\<exists>a b. w = [a, b] \<and> a \<in> set d09 \<and> b \<in> set d09)
      \<or> (\<exists>a b. w = [a, b] \<and> a \<in> set d01 \<and> b \<in> set d09)
      \<or> (\<exists>a b c. w = [a, b, c] \<and> a \<in> set d01 \<and> b \<in> set d09 \<and> c \<in> set d09)"
  unfolding lang_Alt lang_first lang_second lang_third by (rule refl)

lemma shape_len:
  "w \<in> lang (Alt (Seq (Lit x) (Seq (Lit y) (Cls d05)))
            (Alt (Seq (Lit x) (Seq (Cls d04) (Cls d09)))
                 (Seq (Opt (Cls d01)) (Seq (Cls d09) (Opt (Cls d09))))))
    \<Longrightarrow> w \<noteq> [] \<and> length w \<le> 3"
  unfolding octet_shape by auto

lemma shape1:
  "[a] \<in> lang (Alt (Seq (Lit x) (Seq (Lit y) (Cls d05)))
            (Alt (Seq (Lit x) (Seq (Cls d04) (Cls d09)))
                 (Seq (Opt (Cls d01)) (Seq (Cls d09) (Opt (Cls d09))))))
    \<longleftrightarrow> a \<in> set d09"
  unfolding octet_shape by simp

lemma shape2:
  "[a, b] \<in> lang (Alt (Seq (Lit x) (Seq (Lit y) (Cls d05)))
            (Alt (Seq (Lit x) (Seq (Cls d04) (Cls d09)))
                 (Seq (Opt (Cls d01)) (Seq (Cls d09) (Opt (Cls d09))))))
    \<longleftrightarrow> (a \<in> set d09 \<or> a \<in> set d01) \<and> b \<in> set d09"
  unfolding octet_shape by auto

lemma shape3:
  "[a, b, c] \<in> lang (Alt (Seq (Lit x) (Seq (Lit y) (Cls d05)))
            (Alt (Seq (Lit x) (Seq (Cls d04) (Cls d09)))
                 (Seq (Opt (Cls d01)) (Seq (Cls d09) (Opt (Cls d09))))))
    \<longleftrightarrow> (a = x \<and> b = y \<and> c \<in> set d05)
      \<or> (a = x \<and> b \<in> set d04 \<and> c \<in> set d09)
      \<or> (a \<in> set d01 \<and> b \<in> set d09 \<and> c \<in> set d09)"
  unfolding octet_shape by auto

lemma octet_generic:
  assumes d01: "\<And>c. c \<in> set d01 \<longleftrightarrow> is_digit c \<and> digit_value c \<le> 1"
    and d04: "\<And>c. c \<in> set d04 \<longleftrightarrow> is_digit c \<and> digit_value c \<le> 4"
    and d05: "\<And>c. c \<in> set d05 \<longleftrightarrow> is_digit c \<and> digit_value c \<le> 5"
    and d09: "\<And>c. c \<in> set d09 \<longleftrightarrow> is_digit c"
    and x: "\<And>c. c = x \<longleftrightarrow> is_digit c \<and> digit_value c = 2"
    and y: "\<And>c. c = y \<longleftrightarrow> is_digit c \<and> digit_value c = 5"
  shows "w \<in> lang (Alt (Seq (Lit x) (Seq (Lit y) (Cls d05)))
            (Alt (Seq (Lit x) (Seq (Cls d04) (Cls d09)))
                 (Seq (Opt (Cls d01)) (Seq (Cls d09) (Opt (Cls d09))))))
    \<longleftrightarrow> octet_0_255 w \<and> length w \<le> 3"
    (is "w \<in> ?L \<longleftrightarrow> _")
proof -
  have one: "[a] \<in> ?L \<longleftrightarrow> octet_0_255 [a]" for a
  proof -
    have "is_digit a \<Longrightarrow> digit_value a \<le> 255"
      using digit_cases(1) [of a] by simp
    then show ?thesis
      unfolding shape1 d09 octet_0_255_def decimal_value_simps by auto
  qed
  have two: "[a, b] \<in> ?L \<longleftrightarrow> octet_0_255 [a, b]" for a b
  proof -
    have "is_digit a \<Longrightarrow> is_digit b \<Longrightarrow> 10 * digit_value a + digit_value b \<le> 255"
      using digit_cases(1) [of a] digit_cases(1) [of b] by simp
    then show ?thesis
      unfolding shape2 d09 d01 octet_0_255_def decimal_value_simps by auto
  qed
  have three: "[a, b, c] \<in> ?L \<longleftrightarrow> octet_0_255 [a, b, c]" for a b c
  proof -
    have "100 * digit_value a + 10 * digit_value b + digit_value c \<le> 255 \<longleftrightarrow>
        digit_value a = 2 \<and> digit_value b = 5 \<and> digit_value c \<le> 5
        \<or> digit_value a = 2 \<and> digit_value b \<le> 4
        \<or> digit_value a \<le> 1"
      if "is_digit a" "is_digit b" "is_digit c"
      using digit_cases(1) [OF that(1)] digit_cases(1) [OF that(2)] digit_cases(1) [OF that(3)]
      by arith
    then show ?thesis
      unfolding shape3 d09 d01 d04 d05 x y octet_0_255_def decimal_value_simps by auto
  qed
  show ?thesis
  proof
    assume w: "w \<in> ?L"
    from shape_len [OF w] have "w \<noteq> []" and l: "length w \<le> 3"
      by simp_all
    from short_list [OF this] w one two three l show "octet_0_255 w \<and> length w \<le> 3"
      by blast
  next
    assume r: "octet_0_255 w \<and> length w \<le> 3"
    then have "w \<noteq> []" and "length w \<le> 3"
      by (simp_all add: octet_0_255_def)
    from short_list [OF this] r one two three show "w \<in> ?L"
      by blast
  qed
qed

lemma octet_lang_iff: "w \<in> lang octet_regex \<longleftrightarrow> octet_0_255 w \<and> length w \<le> 3"
  unfolding octet_regex_def ranges
  by (rule octet_generic) (simp_all only: digit_cases(2-6), simp_all add: is_digit_def)

lemma lang_Seq: "w \<in> lang (Seq r1 r2) \<longleftrightarrow> (\<exists>u v. w = u @ v \<and> u \<in> lang r1 \<and> v \<in> lang r2)"
  by simp

lemma dotted_step:
  "w \<in> lang (Seq (times (Suc n) (Seq o1 (Lit x))) r) \<longleftrightarrow>
     (\<exists>a v. w = a @ x # v \<and> a \<in> lang o1 \<and> v \<in> lang (Seq (times n (Seq o1 (Lit x))) r))"
  (is "?lhs \<longleftrightarrow> ?rhs")
proof
  assume ?lhs
  then obtain u v where w: "w = u @ v" and u: "u \<in> lang (Seq (Seq o1 (Lit x)) (times n (Seq o1 (Lit x))))"
    and v: "v \<in> lang r"
    unfolding times.simps lang_Seq by blast
  from u obtain a t where u': "u = (a @ [x]) @ t" and a: "a \<in> lang o1"
    and t: "t \<in> lang (times n (Seq o1 (Lit x)))"
    unfolding lang_Seq by auto
  from t v have "t @ v \<in> lang (Seq (times n (Seq o1 (Lit x))) r)"
    by (rule lang_SeqI)
  moreover from w u' have "w = a @ x # (t @ v)"
    by simp
  ultimately show ?rhs
    using a by blast
next
  assume ?rhs
  then obtain a v where w: "w = a @ x # v" and a: "a \<in> lang o1"
    and v: "v \<in> lang (Seq (times n (Seq o1 (Lit x))) r)"
    by blast
  from v obtain t z where v': "v = t @ z" and t: "t \<in> lang (times n (Seq o1 (Lit x)))"
    and z: "z \<in> lang r"
    unfolding lang_Seq by blast
  have "[x] \<in> lang (Lit x)"
    by simp
  with a have "a @ [x] \<in> lang (Seq o1 (Lit x))"
    by (rule lang_SeqI)
  from this t have "(a @ [x]) @ t \<in> lang (Seq (Seq o1 (Lit x)) (times n (Seq o1 (Lit x))))"
    by (rule lang_SeqI)
  from this z have "((a @ [x]) @ t) @ z \<in> lang (Seq (times (Suc n) (Seq o1 (Lit x))) r)"
    unfolding times.simps by (rule lang_SeqI)
  with w v' show ?lhs
    by simp
qed

lemma dotted_done: "w \<in> lang (Seq (times 0 q) r) \<longleftrightarrow> w \<in> lang r"
  by simp

lemma ipv4_lang:
  "s \<in> lang ipv4_regex \<longleftrightarrow>
     (\<exists>a b c d. s = a @ CHR ''.'' # b @ CHR ''.'' # c @ CHR ''.'' # d
        \<and> a \<in> lang octet_regex \<and> b \<in> lang octet_regex
        \<and> c \<in> lang octet_regex \<and> d \<in> lang octet_regex)"
proof -
  have 3: "(3 :: nat) = Suc (Suc (Suc 0))"
    by simp
  show ?thesis
    unfolding ipv4_regex_def 3 dotted_step dotted_done by blast
qed

lemma split_on_plain: "sep \<notin> set a \<Longrightarrow> split_on sep a = [a]"
  by (induction a) auto

lemma split_on_prefix: "sep \<notin> set a \<Longrightarrow> split_on sep (a @ sep # rest) = a # split_on sep rest"
  by (induction a) auto

lemma split_on_not_Nil: "split_on sep s \<noteq> []"
  by (induction s) (auto split: list.splits)

lemma split_on_single: "split_on sep s = [p] \<Longrightarrow> s = p \<and> sep \<notin> set p"
  by (induction s arbitrary: p) (auto split: if_splits list.splits simp: split_on_not_Nil)

lemma split_on_Cons:
  "split_on sep s = p # q # ps \<Longrightarrow>
     \<exists>rest. s = p @ sep # rest \<and> split_on sep rest = q # ps \<and> sep \<notin> set p"
proof (induction s arbitrary: p)
  case Nil
  then show ?case by simp
next
  case (Cons x xs)
  show ?case
  proof (cases "x = sep")
    case True
    with Cons.prems show ?thesis by auto
  next
    case False
    with Cons.prems obtain w where w: "split_on sep xs = w # q # ps" and p: "p = x # w"
      by (auto split: list.splits)
    from Cons.IH [OF w] obtain rest where "xs = w @ sep # rest" "split_on sep rest = q # ps"
      "sep \<notin> set w"
      by blast
    with p False show ?thesis by auto
  qed
qed

lemma octet_no_dot: "octet_0_255 a \<Longrightarrow> CHR ''.'' \<notin> set a"
  using not_dot by (auto simp: octet_0_255_def list_all_iff)

lemma isValidIPv4_iff:
  "isValidIPv4 s \<longleftrightarrow>
     (\<exists>a b c d. split_on CHR ''.'' s = [a, b, c, d]
        \<and> octet_0_255 a \<and> length a \<le> 3 \<and> octet_0_255 b \<and> length b \<le> 3
        \<and> octet_0_255 c \<and> length c \<le> 3 \<and> octet_0_255 d \<and> length d \<le> 3)"
proof
  assume "isValidIPv4 s"
  then obtain a b c d where s: "s = a @ CHR ''.'' # b @ CHR ''.'' # c @ CHR ''.'' # d"
    and o: "octet_0_255 a \<and> length a \<le> 3" "octet_0_255 b \<and> length b \<le> 3"
      "octet_0_255 c \<and> length c \<le> 3" "octet_0_255 d \<and> length d \<le> 3"
    unfolding isValidIPv4_def regex_test_lang ipv4_lang octet_lang_iff by blast
  from o have "split_on CHR ''.'' s = [a, b, c, d]"
    unfolding s by (simp add: split_on_prefix split_on_plain octet_no_dot)
  with o show "\<exists>a b c d. split_on CHR ''.'' s = [a, b, c, d]
        \<and> octet_0_255 a \<and> length a \<le> 3 \<and> octet_0_255 b \<and> length b \<le> 3
        \<and> octet_0_255 c \<and> length c \<le> 3 \<and> octet_0_255 d \<and> length d \<le> 3"
    by blast
next
  assume "\<exists>a b c d. split_on CHR ''.'' s = [a, b, c, d]
        \<and> octet_0_255 a \<and> length a \<le> 3 \<and> octet_0_255 b \<and> length b \<le> 3
        \<and> octet_0_255 c \<and> length c \<le> 3 \<and> octet_0_255 d \<and> length d \<le> 3"
  then obtain a b c d where sp: "split_on CHR ''.'' s = [a, b, c, d]"
    and o: "octet_0_255 a \<and> length a \<le> 3" "octet_0_255 b \<and> length b \<le> 3"
      "octet_0_255 c \<and> length c \<le> 3" "octet_0_255 d \<and> length d \<le> 3"
    by blast
  from split_on_Cons [OF sp] obtain r1 where 1: "s = a @ CHR ''.'' # r1"
    and s1: "split_on CHR ''.'' r1 = [b, c, d]" by blast
  from split_on_Cons [OF s1] obtain r2 where 2: "r1 = b @ CHR ''.'' # r2"
    and s2: "split_on CHR ''.'' r2 = [c, d]" by blast
  from split_on_Cons [OF s2] obtain r3 where 3: "r2 = c @ CHR ''.'' # r3"
    and s3: "split_on CHR ''.'' r3 = [d]" by blast
  from split_on_single [OF s3] have 4: "r3 = d" by simp
  from 1 2 3 4 have "s = a @ CHR ''.'' # b @ CHR ''.'' # c @ CHR ''.'' # d"
    by simp
  with o show "isValidIPv4 s"
    unfolding isValidIPv4_def regex_test_lang ipv4_lang octet_lang_iff by blast
qed

lemma isValidIPv4_strict: "isValidIPv4 s \<Longrightarrow> strict_dotted_quad s"
  unfolding isValidIPv4_iff by (auto simp: strict_dotted_quad_def)

section \<open>Auxiliary facts about the lookup endpoint\<close>

lemmas lookup_defs = api_lookup_def lookup_location_def lookup_network_def ok_def server_error_def
  invalid_ip_def unavailable_def default_result_def

lemma set_country_Inr:
  "set_country c loc = Inr loc' \<longleftrightarrow>
     (c = None \<and> loc' = loc)
     \<or> (\<exists>p n. c = Some p \<and> names p = Some n
           \<and> loc' = loc\<lparr>country := get_prop (n ''en''), countryCode := get_prop (iso_code p)\<rparr>)"
  by (cases c) (auto split: option.splits)

lemma set_region_Inr:
  "set_region ss loc = Inr loc' \<longleftrightarrow>
     ((ss = None \<or> ss = Some []) \<and> loc' = loc)
     \<or> (\<exists>s rest n. ss = Some (s # rest) \<and> names s = Some n
           \<and> loc' = loc\<lparr>region := get_prop (n ''en'')\<rparr>)"
  by (cases "(ss, loc)" rule: set_region.cases) (auto split: option.splits)

lemma set_city_Inr:
  "set_city c loc = Inr loc' \<longleftrightarrow>
     (c = None \<and> loc' = loc)
     \<or> (\<exists>p n. c = Some p \<and> names p = Some n \<and> loc' = loc\<lparr>city := get_prop (n ''en'')\<rparr>)"
  by (cases c) (auto split: option.splits)

lemma from_city_groups:
  assumes "from_city cityData loc = Inr loc'"
  shows "(db_country cityData = None \<longrightarrow> country loc' = country loc \<and> countryCode loc' = countryCode loc)
     \<and> (subdivisions cityData = None \<or> subdivisions cityData = Some [] \<longrightarrow> region loc' = region loc)
     \<and> (db_city cityData = None \<longrightarrow> city loc' = city loc)
     \<and> (db_postal cityData = None \<longrightarrow> zipCode loc' = zipCode loc)
     \<and> (db_location cityData = None \<longrightarrow>
           coordinates loc' = coordinates loc \<and> timezone loc' = timezone loc)"
proof -
  from assms obtain l1 l2 l3 where
    1: "set_country (db_country cityData) loc = Inr l1" and
    2: "set_region (subdivisions cityData) l1 = Inr l2" and
    3: "set_city (db_city cityData) l2 = Inr l3" and
    4: "loc' = set_location (db_location cityData) (set_postal (db_postal cityData) l3)"
    by (auto simp: from_city_def split: sum.splits)
  show ?thesis
    using 1 2 3 unfolding 4 set_country_Inr set_region_Inr set_city_Inr
    by (cases "db_postal cityData"; cases "db_location cityData") auto
qed

lemma success_parts:
  assumes "ipToLookup req = Inr a" and "body (fst (api_lookup dbs req)) = Success r"
  shows "isValidIPv4 a \<and> fst (api_lookup dbs req) = ok r
     \<and> fst (lookup_location dbs a default_location) = Inr (location r)
     \<and> fst (lookup_network dbs a default_network) = Inr (network r)
     \<and> statusCode r = 200 \<and> status r = ''success'' \<and> ip r = a"
  using assms
  by (auto simp: lookup_defs split: if_splits prod.splits sum.splits)

lemma location_groups:
  assumes "fst (lookup_location dbs a loc) = Inr loc'"
  shows "((\<forall>db cd. ipCityDB dbs = Some db \<and> db a = Hit cd \<longrightarrow> db_country cd = None)
        \<and> (\<forall>db cd. ipCityDB dbs = None \<and> ipCountryDB dbs = Some db \<and> db a = Hit cd
              \<longrightarrow> db_country cd = None)
        \<longrightarrow> country loc' = country loc \<and> countryCode loc' = countryCode loc)
     \<and> ((\<forall>db cd. ipCityDB dbs = Some db \<and> db a = Hit cd
              \<longrightarrow> subdivisions cd = None \<or> subdivisions cd = Some [])
        \<longrightarrow> region loc' = region loc)
     \<and> ((\<forall>db cd. ipCityDB dbs = Some db \<and> db a = Hit cd \<longrightarrow> db_city cd = None)
        \<longrightarrow> city loc' = city loc)
     \<and> ((\<forall>db cd. ipCityDB dbs = Some db \<and> db a = Hit cd \<longrightarrow> db_postal cd = None)
        \<longrightarrow> zipCode loc' = zipCode loc)
     \<and> ((\<forall>db cd. ipCityDB dbs = Some db \<and> db a = Hit cd \<longrightarrow> db_location cd = None)
        \<longrightarrow> coordinates loc' = coordinates loc \<and> timezone loc' = timezone loc)"
proof (cases "ipCityDB dbs")
  case None
  show ?thesis
  proof (cases "ipCountryDB dbs")
    case None
    with \<open>ipCityDB dbs = None\<close> assms show ?thesis
      by (simp add: lookup_location_def)
  next
    case (Some countryDB)
    with \<open>ipCityDB dbs = None\<close> assms show ?thesis
      by (cases "countryDB a") (auto simp: lookup_location_def set_country_Inr)
  qed
next
  case (Some cityDB)
  show ?thesis
  proof (cases "cityDB a")
    case (Hit cityData)
    with Some assms have "from_city cityData loc = Inr loc'"
      by (simp add: lookup_location_def)
    from from_city_groups [OF this] Some Hit show ?thesis
      by simp
  qed (use Some assms in \<open>simp_all add: lookup_location_def\<close>)
qed

lemma network_default:
  assumes "fst (lookup_network dbs a net) = Inr net'"
    and "\<forall>db. ipAsnDB dbs = Some db \<longrightarrow> db a = Miss"
  shows "net' = net"
  using assms by (cases "ipAsnDB dbs") (auto simp: lookup_network_def)

lemma location_only_readers:
  assumes "map_option (\<lambda>db. db a) (ipCityDB dbs1) = map_option (\<lambda>db. db a) (ipCityDB dbs2)"
    and "map_option (\<lambda>db. db a) (ipCountryDB dbs1) = map_option (\<lambda>db. db a) (ipCountryDB dbs2)"
  shows "lookup_location dbs1 a loc = lookup_location dbs2 a loc"
  using assms
  by (cases "ipCityDB dbs1"; cases "ipCityDB dbs2"; cases "ipCountryDB dbs1";
      cases "ipCountryDB dbs2") (auto simp: lookup_location_def)

lemma network_only_reader:
  assumes "map_option (\<lambda>db. db a) (ipAsnDB dbs1) = map_option (\<lambda>db. db a) (ipAsnDB dbs2)"
  shows "lookup_network dbs1 a net = lookup_network dbs2 a net"
  using assms by (cases "ipAsnDB dbs1"; cases "ipAsnDB dbs2") (auto simp: lookup_network_def)

lemma queries_of_lookup:
  assumes "ipToLookup req = Inr a" and "isValidIPv4 a"
    and "ipCityDB dbs \<noteq> None \<or> ipCountryDB dbs \<noteq> None \<or> ipAsnDB dbs \<noteq> None"
  shows "snd (api_lookup dbs req) =
     snd (lookup_location dbs a default_location)
     @ (case fst (lookup_location dbs a default_location) of
          Inl e \<Rightarrow> []
        | Inr loc \<Rightarrow> snd (lookup_network dbs a default_network))"
  using assms
  by (auto simp: api_lookup_def split: prod.splits sum.splits)

lemma location_queries:
  "snd (lookup_location dbs a loc) =
     (if ipCityDB dbs \<noteq> None then [City]
      else if ipCountryDB dbs \<noteq> None then [Country] else [])"
  by (auto simp: lookup_location_def split: option.splits lookup.splits)

lemma network_queries:
  "snd (lookup_network dbs a net) = (if ipAsnDB dbs \<noteq> None then [Asn] else [])"
  by (auto simp: lookup_network_def split: option.splits lookup.splits)

lemma location_miss:
  "ipCityDB dbs = Some cityDB \<Longrightarrow> cityDB a = Miss \<Longrightarrow>
     fst (lookup_location dbs a loc) = Inr loc"
  "ipCityDB dbs = None \<Longrightarrow> ipCountryDB dbs = Some countryDB \<Longrightarrow> countryDB a = Miss \<Longrightarrow>
     fst (lookup_location dbs a loc) = Inr loc"
  "ipCityDB dbs = None \<Longrightarrow> ipCountryDB dbs = None \<Longrightarrow>
     fst (lookup_location dbs a loc) = Inr loc"
  by (simp_all add: lookup_location_def)

lemma network_hit:
  "ipAsnDB dbs = Some asnDB \<Longrightarrow> asnDB a = Hit asnData \<Longrightarrow>
     fst (lookup_network dbs a net) = Inr (from_asn asnData)"
  by (simp add: lookup_network_def)

lemma response_of_parts:
  assumes "ipToLookup req = Inr a" and "isValidIPv4 a"
    and "ipCityDB dbs \<noteq> None \<or> ipCountryDB dbs \<noteq> None \<or> ipAsnDB dbs \<noteq> None"
    and "fst (lookup_location dbs a default_location) = Inr loc"
    and "fst (lookup_network dbs a default_network) = Inr net"
  shows "fst (api_lookup dbs req) = ok ((default_result a)\<lparr>location := loc, network := net\<rparr>)"
  using assms
  by (auto simp: api_lookup_def split: prod.splits sum.splits)

lemma from_city_copies:
  assumes "from_city cityData loc = Inr loc'"
  shows "(\<forall>c. db_country cityData = Some c \<longrightarrow>
            (\<exists>n. names c = Some n \<and> country loc' = get_prop (n ''en'')
               \<and> countryCode loc' = get_prop (iso_code c)))
     \<and> (\<forall>s rest. subdivisions cityData = Some (s # rest) \<longrightarrow>
            (\<exists>n. names s = Some n \<and> region loc' = get_prop (n ''en'')))
     \<and> (\<forall>c. db_city cityData = Some c \<longrightarrow>
            (\<exists>n. names c = Some n \<and> city loc' = get_prop (n ''en'')))
     \<and> (\<forall>p. db_postal cityData = Some p \<longrightarrow> zipCode loc' = get_prop (code p))
     \<and> (\<forall>l. db_location cityData = Some l \<longrightarrow>
            coordinates loc'
              = \<lparr>latitude = get_prop (db_latitude l), longitude = get_prop (db_longitude l)\<rparr>
          \<and> timezone loc' = get_prop (time_zone l))"
proof -
  from assms obtain l1 l2 l3 where
    1: "set_country (db_country cityData) loc = Inr l1" and
    2: "set_region (subdivisions cityData) l1 = Inr l2" and
    3: "set_city (db_city cityData) l2 = Inr l3" and
    4: "loc' = set_location (db_location cityData) (set_postal (db_postal cityData) l3)"
    by (auto simp: from_city_def split: sum.splits)
  show ?thesis
    using 1 2 3 unfolding 4 set_country_Inr set_region_Inr set_city_Inr
    by (cases "db_postal cityData"; cases "db_location cityData") auto
qed

lemma location_copies:
  assumes "fst (lookup_location dbs a loc) = Inr loc'"
  shows "(\<forall>db cityData. ipCityDB dbs = Some db \<and> db a = Hit cityData \<longrightarrow>
          (\<forall>c. db_country cityData = Some c \<longrightarrow>
            (\<exists>n. names c = Some n \<and> country loc' = get_prop (n ''en'')
               \<and> countryCode loc' = get_prop (iso_code c)))
        \<and> (\<forall>s rest. subdivisions cityData = Some (s # rest) \<longrightarrow>
            (\<exists>n. names s = Some n \<and> region loc' = get_prop (n ''en'')))
        \<and> (\<forall>c. db_city cityData = Some c \<longrightarrow>
            (\<exists>n. names c = Some n \<and> city loc' = get_prop (n ''en'')))
        \<and> (\<forall>p. db_postal cityData = Some p \<longrightarrow> zipCode loc' = get_prop (code p))
        \<and> (\<forall>l. db_location cityData = Some l \<longrightarrow>
            coordinates loc'
              = \<lparr>latitude = get_prop (db_latitude l), longitude = get_prop (db_longitude l)\<rparr>
          \<and> timezone loc' = get_prop (time_zone l)))
     \<and> (\<forall>db countryData c. ipCityDB dbs = None \<and> ipCountryDB dbs = Some db
            \<and> db a = Hit countryData \<and> db_country countryData = Some c \<longrightarrow>
            (\<exists>n. names c = Some n \<and> country loc' = get_prop (n ''en'')
               \<and> countryCode loc' = get_prop (iso_code c)))"
proof (rule conjI)
  show "\<forall>db cityData. ipCityDB dbs = Some db \<and> db a = Hit cityData \<longrightarrow>
          (\<forall>c. db_country cityData = Some c \<longrightarrow>
            (\<exists>n. names c = Some n \<and> country loc' = get_prop (n ''en'')
               \<and> countryCode loc' = get_prop (iso_code c)))
        \<and> (\<forall>s rest. subdivisions cityData = Some (s # rest) \<longrightarrow>
            (\<exists>n. names s = Some n \<and> region loc' = get_prop (n ''en'')))
        \<and> (\<forall>c. db_city cityData = Some c \<longrightarrow>
            (\<exists>n. names c = Some n \<and> city loc' = get_prop (n ''en'')))
        \<and> (\<forall>p. db_postal cityData = Some p \<longrightarrow> zipCode loc' = get_prop (code p))
        \<and> (\<forall>l. db_location cityData = Some l \<longrightarrow>
            coordinates loc'
              = \<lparr>latitude = get_prop (db_latitude l), longitude = get_prop (db_longitude l)\<rparr>
          \<and> timezone loc' = get_prop (time_zone l))"
  proof (intro allI impI)
    fix db cityData
    assume "ipCityDB dbs = Some db \<and> db a = Hit cityData"
    with assms have "from_city cityData loc = Inr loc'"
      by (simp add: lookup_location_def)
    then show "(\<forall>c. db_country cityData = Some c \<longrightarrow>
            (\<exists>n. names c = Some n \<and> country loc' = get_prop (n ''en'')
               \<and> countryCode loc' = get_prop (iso_code c)))
        \<and> (\<forall>s rest. subdivisions cityData = Some (s # rest) \<longrightarrow>
            (\<exists>n. names s = Some n \<and> region loc' = get_prop (n ''en'')))
        \<and> (\<forall>c. db_city cityData = Some c \<longrightarrow>
            (\<exists>n. names c = Some n \<and> city loc' = get_prop (n ''en'')))
        \<and> (\<forall>p. db_postal cityData = Some p \<longrightarrow> zipCode loc' = get_prop (code p))
        \<and> (\<forall>l. db_location cityData = Some l \<longrightarrow>
            coordinates loc'
              = \<lparr>latitude = get_prop (db_latitude l), longitude = get_prop (db_longitude l)\<rparr>
          \<and> timezone loc' = get_prop (time_zone l))"
      by (rule from_city_copies)
  qed
  show "\<forall>db countryData c. ipCityDB dbs = None \<and> ipCountryDB dbs = Some db
            \<and> db a = Hit countryData \<and> db_country countryData = Some c \<longrightarrow>
            (\<exists>n. names c = Some n \<and> country loc' = get_prop (n ''en'')
               \<and> countryCode loc' = get_prop (iso_code c))"
  proof (intro allI impI)
    fix db countryData c
    assume h: "ipCityDB dbs = None \<and> ipCountryDB dbs = Some db
            \<and> db a = Hit countryData \<and> db_country countryData = Some c"
    with assms have "set_country (Some c) loc = Inr loc'"
      by (simp add: lookup_location_def)
    then show "\<exists>n. names c = Some n \<and> country loc' = get_prop (n ''en'')
               \<and> countryCode loc' = get_prop (iso_code c)"
      unfolding set_country_Inr by auto
  qed
qed

lemma network_copies:
  assumes "fst (lookup_network dbs a net) = Inr net'"
  shows "\<forall>db asnData. ipAsnDB dbs = Some db \<and> db a = Hit asnData \<longrightarrow>
           isp net' = get_prop (autonomous_system_organization asnData)
         \<and> organization net' = get_prop (autonomous_system_organization asnData)
         \<and> asn net' = get_prop (autonomous_system_number asnData)
         \<and> asName net' = Val (as_label (get_prop (autonomous_system_number asnData)))"
proof (intro allI impI)
  fix db asnData
  assume "ipAsnDB dbs = Some db \<and> db a = Hit asnData"
  with assms have "net' = from_asn asnData"
    by (simp add: lookup_network_def)
  then show "isp net' = get_prop (autonomous_system_organization asnData)
         \<and> organization net' = get_prop (autonomous_system_organization asnData)
         \<and> asn net' = get_prop (autonomous_system_number asnData)
         \<and> asName net' = Val (as_label (get_prop (autonomous_system_number asnData)))"
    by (simp add: from_asn_def)
qed

section \<open>Properties of the lookup endpoint\<close>

text \<open>
  C3. For every syntactically valid IPv4 address, when none of the three readers is
  loaded the endpoint answers with status 503 (service unavailable) and not with a
  default-filled record; no reader is queried.
\<close>

theorem no_database_unavailable:
  assumes "ipToLookup req = Inr a" and "isValidIPv4 a"
    and "ipCityDB dbs = None" and "ipCountryDB dbs = None" and "ipAsnDB dbs = None"
  shows "api_lookup dbs req = (unavailable, []) \<and> http_status (fst (api_lookup dbs req)) = 503"
  using assms by (simp add: api_lookup_def unavailable_def)

theorem no_database_unavailable_witness:
  "ipToLookup \<lparr>params_ip = Some ''8.8.8.8'', req_ip = None\<rparr> = Inr ''8.8.8.8''
   \<and> isValidIPv4 ''8.8.8.8''
   \<and> api_lookup (\<lparr>ipCountryDB = None, ipCityDB = None, ipAsnDB = None\<rparr> :: int databases)
        \<lparr>params_ip = Some ''8.8.8.8'', req_ip = None\<rparr> = (unavailable, [])
   \<and> http_status (fst (api_lookup
          (\<lparr>ipCountryDB = None, ipCityDB = None, ipAsnDB = None\<rparr> :: int databases)
          \<lparr>params_ip = Some ''8.8.8.8'', req_ip = None\<rparr>)) = 503"
proof -
  have i: "ipToLookup \<lparr>params_ip = Some ''8.8.8.8'', req_ip = None\<rparr> = Inr ''8.8.8.8''"
    by (simp add: ipToLookup_def)
  have v: "isValidIPv4 ''8.8.8.8''"
    by code_simp
  show ?thesis
    using i v no_database_unavailable [OF i v,
        of "\<lparr>ipCountryDB = None, ipCityDB = None, ipAsnDB = None\<rparr> :: int databases"]
    by (simp add: unavailable_def)
qed

text \<open>
  C1. For every syntactically valid IPv4 address, when a city reader is loaded and has
  no record for the address, the country reader is not queried, and the country name
  and country code of a record that is returned are the defaults. Whenever the country
  reader is queried, no city reader is loaded.
\<close>

theorem city_miss_no_country_fallback:
  "(ipToLookup req = Inr a \<and> isValidIPv4 a \<and> ipCityDB dbs = Some cityDB \<and> cityDB a = Miss
      \<longrightarrow> Country \<notin> set (snd (api_lookup dbs req))
        \<and> (\<forall>r. body (fst (api_lookup dbs req)) = Success r
              \<longrightarrow> country (location r) = Val ''Unknown'' \<and> countryCode (location r) = Val ''XX''))
   \<and> (Country \<in> set (snd (api_lookup dbs' req')) \<longrightarrow> ipCityDB dbs' = None)"
  by (auto simp: api_lookup_def lookup_location_def lookup_network_def default_location_def
        default_result_def ok_def server_error_def invalid_ip_def unavailable_def
      split: option.splits lookup.splits sum.splits if_splits prod.splits)

theorem city_miss_no_country_fallback_witness:
  "ipToLookup \<lparr>params_ip = Some ''8.8.8.8'', req_ip = None\<rparr> = Inr ''8.8.8.8''
   \<and> isValidIPv4 ''8.8.8.8''
   \<and> ipCityDB (\<lparr>ipCountryDB = Some (\<lambda>a. Hit \<lparr>db_country =
              Some \<lparr>names = Some [''en'' \<mapsto> ''United States''], iso_code = Some ''US''\<rparr>\<rparr>),
         ipCityDB = Some (\<lambda>a. Miss), ipAsnDB = None\<rparr> :: int databases) = Some (\<lambda>a. Miss)
   \<and> (\<lambda>a. Miss :: int city_data lookup) ''8.8.8.8'' = Miss
   \<and> api_lookup (\<lparr>ipCountryDB = Some (\<lambda>a. Hit \<lparr>db_country =
              Some \<lparr>names = Some [''en'' \<mapsto> ''United States''], iso_code = Some ''US''\<rparr>\<rparr>),
         ipCityDB = Some (\<lambda>a. Miss), ipAsnDB = None\<rparr> :: int databases)
        \<lparr>params_ip = Some ''8.8.8.8'', req_ip = None\<rparr> = (ok (default_result ''8.8.8.8''), [City])
   \<and> Country \<in> set (snd (api_lookup
        (\<lparr>ipCountryDB = Some (\<lambda>a. Miss), ipCityDB = None, ipAsnDB = None\<rparr> :: int databases)
        \<lparr>params_ip = Some ''8.8.8.8'', req_ip = None\<rparr>))"
proof -
  have v: "isValidIPv4 ''8.8.8.8''"
    by code_simp
  show ?thesis
    using v city_miss_no_country_fallback [of
      "\<lparr>params_ip = Some ''8.8.8.8'', req_ip = None\<rparr>" "''8.8.8.8''"
      "\<lparr>ipCountryDB = Some (\<lambda>a. Hit \<lparr>db_country =
              Some \<lparr>names = Some [''en'' \<mapsto> ''United States''], iso_code = Some ''US''\<rparr>\<rparr>),
         ipCityDB = Some (\<lambda>a. Miss), ipAsnDB = None\<rparr> :: int databases" "\<lambda>a. Miss"
      "\<lparr>ipCountryDB = Some (\<lambda>a. Miss), ipCityDB = None, ipAsnDB = None\<rparr> :: int databases"
      "\<lparr>params_ip = Some ''8.8.8.8'', req_ip = None\<rparr>"]
    by (simp add: api_lookup_def ipToLookup_def lookup_location_def lookup_network_def
          default_result_def)
qed



text \<open>
  C5. The network block of a returned record is determined by the ASN reader's answer
  alone, and the location block by the answers of the city and country readers alone.
  With only the ASN reader loaded and a record found, the response is a success whose
  country is \<open>Unknown\<close> and whose \<open>asn\<close> is the number read from the ASN record.
  A location lookup without a record does not keep the ASN reader from being queried,
  and an ASN lookup without a record does not keep the location reader from being
  queried.
\<close>

theorem network_independent_of_location:
  assumes "ipToLookup req1 = Inr a" and "ipToLookup req2 = Inr a" and "isValidIPv4 a"
  shows "(\<forall>r1 r2. body (fst (api_lookup dbs1 req1)) = Success r1
            \<and> body (fst (api_lookup dbs2 req2)) = Success r2 \<longrightarrow>
          (map_option (\<lambda>db. db a) (ipAsnDB dbs1) = map_option (\<lambda>db. db a) (ipAsnDB dbs2)
             \<longrightarrow> network r1 = network r2)
        \<and> (map_option (\<lambda>db. db a) (ipCityDB dbs1) = map_option (\<lambda>db. db a) (ipCityDB dbs2)
           \<and> map_option (\<lambda>db. db a) (ipCountryDB dbs1)
               = map_option (\<lambda>db. db a) (ipCountryDB dbs2)
             \<longrightarrow> location r1 = location r2))
     \<and> (ipCityDB dbs1 = None \<and> ipCountryDB dbs1 = None \<and> ipAsnDB dbs1 = Some asnDB
          \<and> asnDB a = Hit asnData \<longrightarrow>
          (\<exists>r. fst (api_lookup dbs1 req1) = ok r \<and> country (location r) = Val ''Unknown''
             \<and> asn (network r) = get_prop (autonomous_system_number asnData)))
     \<and> (ipCityDB dbs1 = Some cityDB \<and> cityDB a = Miss \<and> ipAsnDB dbs1 \<noteq> None
          \<longrightarrow> Asn \<in> set (snd (api_lookup dbs1 req1)))
     \<and> (ipCityDB dbs1 = None \<and> ipCountryDB dbs1 = Some countryDB \<and> countryDB a = Miss
          \<and> ipAsnDB dbs1 \<noteq> None
          \<longrightarrow> Asn \<in> set (snd (api_lookup dbs1 req1)))
     \<and> (ipAsnDB dbs2 = Some asnDB' \<and> asnDB' a = Miss \<longrightarrow>
          (ipCityDB dbs2 \<noteq> None \<longrightarrow> City \<in> set (snd (api_lookup dbs2 req2)))
        \<and> (ipCityDB dbs2 = None \<and> ipCountryDB dbs2 \<noteq> None
             \<longrightarrow> Country \<in> set (snd (api_lookup dbs2 req2))))"
proof (intro conjI allI impI)
  fix r1 r2
  assume ok: "body (fst (api_lookup dbs1 req1)) = Success r1
            \<and> body (fst (api_lookup dbs2 req2)) = Success r2"
  note p1 = success_parts [OF assms(1) ok [THEN conjunct1]]
  note p2 = success_parts [OF assms(2) ok [THEN conjunct2]]
  {
    assume "map_option (\<lambda>db. db a) (ipAsnDB dbs1) = map_option (\<lambda>db. db a) (ipAsnDB dbs2)"
    then have "lookup_network dbs1 a default_network = lookup_network dbs2 a default_network"
      by (rule network_only_reader)
    moreover from p1 have "fst (lookup_network dbs1 a default_network) = Inr (network r1)"
      by (elim conjE)
    moreover from p2 have "fst (lookup_network dbs2 a default_network) = Inr (network r2)"
      by (elim conjE)
    ultimately show "network r1 = network r2"
      by simp
  }
  {
    assume "map_option (\<lambda>db. db a) (ipCityDB dbs1) = map_option (\<lambda>db. db a) (ipCityDB dbs2)
           \<and> map_option (\<lambda>db. db a) (ipCountryDB dbs1)
               = map_option (\<lambda>db. db a) (ipCountryDB dbs2)"
    then have "lookup_location dbs1 a default_location = lookup_location dbs2 a default_location"
      by (intro location_only_readers) simp_all
    moreover from p1 have "fst (lookup_location dbs1 a default_location) = Inr (location r1)"
      by (elim conjE)
    moreover from p2 have "fst (lookup_location dbs2 a default_location) = Inr (location r2)"
      by (elim conjE)
    ultimately show "location r1 = location r2"
      by simp
  }
next
  assume h: "ipCityDB dbs1 = None \<and> ipCountryDB dbs1 = None \<and> ipAsnDB dbs1 = Some asnDB
          \<and> asnDB a = Hit asnData"
  then have loaded: "ipCityDB dbs1 \<noteq> None \<or> ipCountryDB dbs1 \<noteq> None \<or> ipAsnDB dbs1 \<noteq> None"
    by simp
  from h have loc: "fst (lookup_location dbs1 a default_location) = Inr default_location"
    by (simp add: location_miss(3))
  from h have net: "fst (lookup_network dbs1 a default_network) = Inr (from_asn asnData)"
    by (simp add: network_hit)
  have "fst (api_lookup dbs1 req1)
      = ok ((default_result a)\<lparr>location := default_location, network := from_asn asnData\<rparr>)"
    by (rule response_of_parts [OF assms(1,3) loaded loc net])
  then show "\<exists>r. fst (api_lookup dbs1 req1) = ok r \<and> country (location r) = Val ''Unknown''
             \<and> asn (network r) = get_prop (autonomous_system_number asnData)"
    by (intro exI [where x = "(default_result a)
          \<lparr>location := default_location, network := from_asn asnData\<rparr>"])
      (simp add: default_location_def from_asn_def)
next
  assume h: "ipCityDB dbs1 = Some cityDB \<and> cityDB a = Miss \<and> ipAsnDB dbs1 \<noteq> None"
  then have loaded: "ipCityDB dbs1 \<noteq> None \<or> ipCountryDB dbs1 \<noteq> None \<or> ipAsnDB dbs1 \<noteq> None"
    by simp
  from h have "fst (lookup_location dbs1 a default_location) = Inr default_location"
    by (simp add: location_miss(1))
  with h show "Asn \<in> set (snd (api_lookup dbs1 req1))"
    by (simp add: queries_of_lookup [OF assms(1,3) loaded] network_queries)
next
  assume h: "ipCityDB dbs1 = None \<and> ipCountryDB dbs1 = Some countryDB \<and> countryDB a = Miss
          \<and> ipAsnDB dbs1 \<noteq> None"
  then have loaded: "ipCityDB dbs1 \<noteq> None \<or> ipCountryDB dbs1 \<noteq> None \<or> ipAsnDB dbs1 \<noteq> None"
    by simp
  from h have "fst (lookup_location dbs1 a default_location) = Inr default_location"
    by (simp add: location_miss(2))
  with h show "Asn \<in> set (snd (api_lookup dbs1 req1))"
    by (simp add: queries_of_lookup [OF assms(1,3) loaded] network_queries)
next
  assume m: "ipAsnDB dbs2 = Some asnDB' \<and> asnDB' a = Miss"
  then have loaded: "ipCityDB dbs2 \<noteq> None \<or> ipCountryDB dbs2 \<noteq> None \<or> ipAsnDB dbs2 \<noteq> None"
    by simp
  note q = queries_of_lookup [OF assms(2,3) loaded]
  {
    assume "ipCityDB dbs2 \<noteq> None"
    then show "City \<in> set (snd (api_lookup dbs2 req2))"
      by (simp add: q location_queries)
  }
  {
    assume "ipCityDB dbs2 = None \<and> ipCountryDB dbs2 \<noteq> None"
    then show "Country \<in> set (snd (api_lookup dbs2 req2))"
      by (simp add: q location_queries)
  }
qed

theorem network_independent_of_location_witness:
  "ipToLookup \<lparr>params_ip = Some ''8.8.8.8'', req_ip = None\<rparr> = Inr ''8.8.8.8''
   \<and> isValidIPv4 ''8.8.8.8''
   \<and> api_lookup
        (\<lparr>ipCountryDB = None, ipCityDB = None,
          ipAsnDB = Some (\<lambda>a. Hit \<lparr>autonomous_system_number = Some 15169, autonomous_system_organization = Some ''GOOGLE''\<rparr>)\<rparr> :: int databases)
        \<lparr>params_ip = Some ''8.8.8.8'', req_ip = None\<rparr>
     = (ok ((default_result ''8.8.8.8'') \<lparr>network := from_asn \<lparr>autonomous_system_number = Some 15169, autonomous_system_organization = Some ''GOOGLE''\<rparr>\<rparr>), [Asn])
   \<and> country (location (((default_result ''8.8.8.8'') \<lparr>network := from_asn \<lparr>autonomous_system_number = Some 15169, autonomous_system_organization = Some ''GOOGLE''\<rparr>\<rparr>) :: int result)) = Val ''Unknown''
   \<and> asn (network (((default_result ''8.8.8.8'') \<lparr>network := from_asn \<lparr>autonomous_system_number = Some 15169, autonomous_system_organization = Some ''GOOGLE''\<rparr>\<rparr>) :: int result)) = Val 15169
   \<and> api_lookup
        (\<lparr>ipCountryDB = None, ipCityDB = Some (\<lambda>a. Miss),
          ipAsnDB = Some (\<lambda>a. Hit \<lparr>autonomous_system_number = Some 15169, autonomous_system_organization = Some ''GOOGLE''\<rparr>)\<rparr> :: int databases)
        \<lparr>params_ip = Some ''8.8.8.8'', req_ip = None\<rparr>
     = (ok ((default_result ''8.8.8.8'') \<lparr>network := from_asn \<lparr>autonomous_system_number = Some 15169, autonomous_system_organization = Some ''GOOGLE''\<rparr>\<rparr>), [City, Asn])
   \<and> network (((default_result ''8.8.8.8'') \<lparr>network := from_asn \<lparr>autonomous_system_number = Some 15169, autonomous_system_organization = Some ''GOOGLE''\<rparr>\<rparr>) :: int result) = from_asn \<lparr>autonomous_system_number = Some 15169, autonomous_system_organization = Some ''GOOGLE''\<rparr>
   \<and> Asn \<in> set (snd (api_lookup
        (\<lparr>ipCountryDB = None, ipCityDB = Some (\<lambda>a. Miss),
          ipAsnDB = Some (\<lambda>a. Hit \<lparr>autonomous_system_number = Some 15169, autonomous_system_organization = Some ''GOOGLE''\<rparr>)\<rparr> :: int databases)
        \<lparr>params_ip = Some ''8.8.8.8'', req_ip = None\<rparr>))
   \<and> City \<in> set (snd (api_lookup
        (\<lparr>ipCountryDB = None, ipCityDB = Some (\<lambda>a. Miss),
          ipAsnDB = Some (\<lambda>a. Miss)\<rparr> :: int databases)
        \<lparr>params_ip = Some ''8.8.8.8'', req_ip = None\<rparr>))"
proof -
  have v: "isValidIPv4 ''8.8.8.8''"
    by code_simp
  have i: "ipToLookup \<lparr>params_ip = Some ''8.8.8.8'', req_ip = None\<rparr> = Inr ''8.8.8.8''"
    by (simp add: ipToLookup_def)
  note t = network_independent_of_location [OF i i v]
  have e1: "api_lookup
        (\<lparr>ipCountryDB = None, ipCityDB = None,
          ipAsnDB = Some (\<lambda>a. Hit \<lparr>autonomous_system_number = Some 15169, autonomous_system_organization = Some ''GOOGLE''\<rparr>)\<rparr> :: int databases)
        \<lparr>params_ip = Some ''8.8.8.8'', req_ip = None\<rparr>
     = (ok ((default_result ''8.8.8.8'') \<lparr>network := from_asn \<lparr>autonomous_system_number = Some 15169, autonomous_system_organization = Some ''GOOGLE''\<rparr>\<rparr>), [Asn])"
    using v i
    by (simp add: api_lookup_def lookup_location_def lookup_network_def default_result_def)
  have e3: "api_lookup
        (\<lparr>ipCountryDB = None, ipCityDB = Some (\<lambda>a. Miss),
          ipAsnDB = Some (\<lambda>a. Hit \<lparr>autonomous_system_number = Some 15169, autonomous_system_organization = Some ''GOOGLE''\<rparr>)\<rparr> :: int databases)
        \<lparr>params_ip = Some ''8.8.8.8'', req_ip = None\<rparr>
     = (ok ((default_result ''8.8.8.8'') \<lparr>network := from_asn \<lparr>autonomous_system_number = Some 15169, autonomous_system_organization = Some ''GOOGLE''\<rparr>\<rparr>), [City, Asn])"
    using v i
    by (simp add: api_lookup_def lookup_location_def lookup_network_def default_result_def)
  have n: "Asn \<in> set (snd (api_lookup
        (\<lparr>ipCountryDB = None, ipCityDB = Some (\<lambda>a. Miss),
          ipAsnDB = Some (\<lambda>a. Hit \<lparr>autonomous_system_number = Some 15169, autonomous_system_organization = Some ''GOOGLE''\<rparr>)\<rparr> :: int databases)
        \<lparr>params_ip = Some ''8.8.8.8'', req_ip = None\<rparr>))"
    by (rule t [where cityDB = "\<lambda>a. Miss",
          THEN conjunct2, THEN conjunct2, THEN conjunct1, THEN mp]) simp
  have c: "City \<in> set (snd (api_lookup
        (\<lparr>ipCountryDB = None, ipCityDB = Some (\<lambda>a. Miss),
          ipAsnDB = Some (\<lambda>a. Miss)\<rparr> :: int databases)
        \<lparr>params_ip = Some ''8.8.8.8'', req_ip = None\<rparr>))"
    by (rule t [where asnDB' = "\<lambda>a. Miss",
          THEN conjunct2, THEN conjunct2, THEN conjunct2, THEN conjunct2, THEN mp,
          THEN conjunct1, THEN mp]) simp_all
  from i v e1 e3 n c show ?thesis
    by (simp add: default_result_def default_location_def from_asn_def)
qed

text \<open>
  C6, as the code has it. The claim as stated fails: the guards of the handler test
  whether a sub-record (\<^verbatim>\<open>country\<close>, \<^verbatim>\<open>subdivisions\<close>, \<^verbatim>\<open>city\<close>, \<^verbatim>\<open>postal\<close>, \<^verbatim>\<open>location\<close>) is
  there, and then copy its properties as they are, so a property missing inside a
  sub-record that is present replaces the sentinel by \<^verbatim>\<open>undefined\<close>, which the JSON
  encoding leaves out. The counterexample is a city record whose \<^verbatim>\<open>location\<close> has
  coordinates and no \<^verbatim>\<open>time_zone\<close>.
\<close>

theorem sentinel_counterexample:
  "api_lookup
        (\<lparr>ipCountryDB = None, ipCityDB = Some (\<lambda>a. Hit \<lparr>db_country = None, subdivisions = None, db_city = None, db_postal = None, db_location = Some \<lparr>db_latitude = Some 47, db_longitude = Some 8, time_zone = None\<rparr>\<rparr>),
          ipAsnDB = None\<rparr> :: int databases)
        \<lparr>params_ip = Some ''8.8.8.8'', req_ip = None\<rparr>
   = (\<lparr>http_status = 200,
       body = Success \<lparr>statusCode = 200, status = ''success'', ip = ''8.8.8.8'',
         location = \<lparr>country = Val ''Unknown'', countryCode = Val ''XX'',
           region = Val ''Unknown'', city = Val ''Unknown'', zipCode = Val ''Unknown'',
           coordinates = \<lparr>latitude = Val 47, longitude = Val 8\<rparr>, timezone = Undefined\<rparr>,
         network = default_network\<rparr>\<rparr>, [City])
   \<and> (Undefined :: string jsopt) \<noteq> Val ''Unknown''"
proof -
  have v: "isValidIPv4 ''8.8.8.8''"
    by code_simp
  then show ?thesis
    by (simp add: lookup_defs ipToLookup_def from_city_def default_location_def)
qed

text \<open>
  C6, amended. Every response with a record has status 200 and the same fixed
  fields. Each group of fields whose sub-record is absent from the data (reader not
  loaded, no record for the address, or sub-record missing from the record) holds
  its sentinels: \<open>Unknown\<close>, \<open>XX\<close>, \<^verbatim>\<open>null\<close>. Each group whose sub-record is present holds
  the properties of that sub-record copied as they are, \<^verbatim>\<open>undefined\<close> where the
  sub-record lacks one. When every loaded reader has no record for the address, the
  response is status 200 with every field at its default.
\<close>

theorem defaults_per_group:
  assumes "ipToLookup req = Inr a" and "isValidIPv4 a"
  shows "(\<forall>r. body (fst (api_lookup dbs req)) = Success r \<longrightarrow>
          (http_status (fst (api_lookup dbs req)) = 200
        \<and> statusCode r = 200 \<and> status r = ''success'' \<and> ip r = a)
        \<and> (((\<forall>db cd. ipCityDB dbs = Some db \<and> db a = Hit cd \<longrightarrow> db_country cd = None)
          \<and> (\<forall>db cd. ipCityDB dbs = None \<and> ipCountryDB dbs = Some db \<and> db a = Hit cd
                \<longrightarrow> db_country cd = None)
          \<longrightarrow> country (location r) = Val ''Unknown'' \<and> countryCode (location r) = Val ''XX'')
        \<and> ((\<forall>db cd. ipCityDB dbs = Some db \<and> db a = Hit cd
                \<longrightarrow> subdivisions cd = None \<or> subdivisions cd = Some [])
          \<longrightarrow> region (location r) = Val ''Unknown'')
        \<and> ((\<forall>db cd. ipCityDB dbs = Some db \<and> db a = Hit cd \<longrightarrow> db_city cd = None)
          \<longrightarrow> city (location r) = Val ''Unknown'')
        \<and> ((\<forall>db cd. ipCityDB dbs = Some db \<and> db a = Hit cd \<longrightarrow> db_postal cd = None)
          \<longrightarrow> zipCode (location r) = Val ''Unknown'')
        \<and> ((\<forall>db cd. ipCityDB dbs = Some db \<and> db a = Hit cd \<longrightarrow> db_location cd = None)
          \<longrightarrow> coordinates (location r) = \<lparr>latitude = Null, longitude = Null\<rparr>
            \<and> timezone (location r) = Val ''Unknown'')
        \<and> ((\<forall>db. ipAsnDB dbs = Some db \<longrightarrow> db a = Miss)
          \<longrightarrow> network r = default_network))
        \<and> ((\<forall>db cityData. ipCityDB dbs = Some db \<and> db a = Hit cityData \<longrightarrow>
            (\<forall>c. db_country cityData = Some c \<longrightarrow>
              (\<exists>n. names c = Some n \<and> country (location r) = get_prop (n ''en'')
                 \<and> countryCode (location r) = get_prop (iso_code c)))
          \<and> (\<forall>s rest. subdivisions cityData = Some (s # rest) \<longrightarrow>
              (\<exists>n. names s = Some n \<and> region (location r) = get_prop (n ''en'')))
          \<and> (\<forall>c. db_city cityData = Some c \<longrightarrow>
              (\<exists>n. names c = Some n \<and> city (location r) = get_prop (n ''en'')))
          \<and> (\<forall>p. db_postal cityData = Some p \<longrightarrow>
              zipCode (location r) = get_prop (code p))
          \<and> (\<forall>l. db_location cityData = Some l \<longrightarrow>
              coordinates (location r)
                = \<lparr>latitude = get_prop (db_latitude l), longitude = get_prop (db_longitude l)\<rparr>
            \<and> timezone (location r) = get_prop (time_zone l)))
        \<and> (\<forall>db countryData c. ipCityDB dbs = None \<and> ipCountryDB dbs = Some db
              \<and> db a = Hit countryData \<and> db_country countryData = Some c \<longrightarrow>
              (\<exists>n. names c = Some n \<and> country (location r) = get_prop (n ''en'')
                 \<and> countryCode (location r) = get_prop (iso_code c))))
        \<and> (\<forall>db asnData. ipAsnDB dbs = Some db \<and> db a = Hit asnData \<longrightarrow>
             isp (network r) = get_prop (autonomous_system_organization asnData)
           \<and> organization (network r) = get_prop (autonomous_system_organization asnData)
           \<and> asn (network r) = get_prop (autonomous_system_number asnData)
           \<and> asName (network r)
               = Val (as_label (get_prop (autonomous_system_number asnData)))))
   \<and> ((ipCityDB dbs \<noteq> None \<or> ipCountryDB dbs \<noteq> None \<or> ipAsnDB dbs \<noteq> None)
      \<and> (\<forall>db. ipCityDB dbs = Some db \<longrightarrow> db a = Miss)
      \<and> (\<forall>db. ipCountryDB dbs = Some db \<longrightarrow> db a = Miss)
      \<and> (\<forall>db. ipAsnDB dbs = Some db \<longrightarrow> db a = Miss)
      \<longrightarrow> fst (api_lookup dbs req) = ok (default_result a))"
proof (rule conjI)
  show "\<forall>r. body (fst (api_lookup dbs req)) = Success r \<longrightarrow>
          (http_status (fst (api_lookup dbs req)) = 200
        \<and> statusCode r = 200 \<and> status r = ''success'' \<and> ip r = a)
        \<and> (((\<forall>db cd. ipCityDB dbs = Some db \<and> db a = Hit cd \<longrightarrow> db_country cd = None)
          \<and> (\<forall>db cd. ipCityDB dbs = None \<and> ipCountryDB dbs = Some db \<and> db a = Hit cd
                \<longrightarrow> db_country cd = None)
          \<longrightarrow> country (location r) = Val ''Unknown'' \<and> countryCode (location r) = Val ''XX'')
        \<and> ((\<forall>db cd. ipCityDB dbs = Some db \<and> db a = Hit cd
                \<longrightarrow> subdivisions cd = None \<or> subdivisions cd = Some [])
          \<longrightarrow> region (location r) = Val ''Unknown'')
        \<and> ((\<forall>db cd. ipCityDB dbs = Some db \<and> db a = Hit cd \<longrightarrow> db_city cd = None)
          \<longrightarrow> city (location r) = Val ''Unknown'')
        \<and> ((\<forall>db cd. ipCityDB dbs = Some db \<and> db a = Hit cd \<longrightarrow> db_postal cd = None)
          \<longrightarrow> zipCode (location r) = Val ''Unknown'')
        \<and> ((\<forall>db cd. ipCityDB dbs = Some db \<and> db a = Hit cd \<longrightarrow> db_location cd = None)
          \<longrightarrow> coordinates (location r) = \<lparr>latitude = Null, longitude = Null\<rparr>
            \<and> timezone (location r) = Val ''Unknown'')
        \<and> ((\<forall>db. ipAsnDB dbs = Some db \<longrightarrow> db a = Miss)
          \<longrightarrow> network r = default_network))
        \<and> ((\<forall>db cityData. ipCityDB dbs = Some db \<and> db a = Hit cityData \<longrightarrow>
            (\<forall>c. db_country cityData = Some c \<longrightarrow>
              (\<exists>n. names c = Some n \<and> country (location r) = get_prop (n ''en'')
                 \<and> countryCode (location r) = get_prop (iso_code c)))
          \<and> (\<forall>s rest. subdivisions cityData = Some (s # rest) \<longrightarrow>
              (\<exists>n. names s = Some n \<and> region (location r) = get_prop (n ''en'')))
          \<and> (\<forall>c. db_city cityData = Some c \<longrightarrow>
              (\<exists>n. names c = Some n \<and> city (location r) = get_prop (n ''en'')))
          \<and> (\<forall>p. db_postal cityData = Some p \<longrightarrow>
              zipCode (location r) = get_prop (code p))
          \<and> (\<forall>l. db_location cityData = Some l \<longrightarrow>
              coordinates (location r)
                = \<lparr>latitude = get_prop (db_latitude l), longitude = get_prop (db_longitude l)\<rparr>
            \<and> timezone (location r) = get_prop (time_zone l)))
        \<and> (\<forall>db countryData c. ipCityDB dbs = None \<and> ipCountryDB dbs = Some db
              \<and> db a = Hit countryData \<and> db_country countryData = Some c \<longrightarrow>
              (\<exists>n. names c = Some n \<and> country (location r) = get_prop (n ''en'')
                 \<and> countryCode (location r) = get_prop (iso_code c))))
        \<and> (\<forall>db asnData. ipAsnDB dbs = Some db \<and> db a = Hit asnData \<longrightarrow>
             isp (network r) = get_prop (autonomous_system_organization asnData)
           \<and> organization (network r) = get_prop (autonomous_system_organization asnData)
           \<and> asn (network r) = get_prop (autonomous_system_number asnData)
           \<and> asName (network r)
               = Val (as_label (get_prop (autonomous_system_number asnData))))"
  proof (intro allI impI)
    fix r
    assume r: "body (fst (api_lookup dbs req)) = Success r"
    note parts = success_parts [OF assms(1) r]
    from parts have loc: "fst (lookup_location dbs a default_location) = Inr (location r)"
      by simp
    from parts have net: "fst (lookup_network dbs a default_network) = Inr (network r)"
      by simp
    from parts have head: "http_status (fst (api_lookup dbs req)) = 200
        \<and> statusCode r = 200 \<and> status r = ''success'' \<and> ip r = a"
      by (simp add: ok_def)
    have defaults: "((\<forall>db cd. ipCityDB dbs = Some db \<and> db a = Hit cd \<longrightarrow> db_country cd = None)
          \<and> (\<forall>db cd. ipCityDB dbs = None \<and> ipCountryDB dbs = Some db \<and> db a = Hit cd
                \<longrightarrow> db_country cd = None)
          \<longrightarrow> country (location r) = Val ''Unknown'' \<and> countryCode (location r) = Val ''XX'')
        \<and> ((\<forall>db cd. ipCityDB dbs = Some db \<and> db a = Hit cd
                \<longrightarrow> subdivisions cd = None \<or> subdivisions cd = Some [])
          \<longrightarrow> region (location r) = Val ''Unknown'')
        \<and> ((\<forall>db cd. ipCityDB dbs = Some db \<and> db a = Hit cd \<longrightarrow> db_city cd = None)
          \<longrightarrow> city (location r) = Val ''Unknown'')
        \<and> ((\<forall>db cd. ipCityDB dbs = Some db \<and> db a = Hit cd \<longrightarrow> db_postal cd = None)
          \<longrightarrow> zipCode (location r) = Val ''Unknown'')
        \<and> ((\<forall>db cd. ipCityDB dbs = Some db \<and> db a = Hit cd \<longrightarrow> db_location cd = None)
          \<longrightarrow> coordinates (location r) = \<lparr>latitude = Null, longitude = Null\<rparr>
            \<and> timezone (location r) = Val ''Unknown'')
        \<and> ((\<forall>db. ipAsnDB dbs = Some db \<longrightarrow> db a = Miss)
          \<longrightarrow> network r = default_network)"
    proof (intro conjI impI)
    note g = location_groups [OF loc]
    {
      assume "(\<forall>db cd. ipCityDB dbs = Some db \<and> db a = Hit cd \<longrightarrow> db_country cd = None)
          \<and> (\<forall>db cd. ipCityDB dbs = None \<and> ipCountryDB dbs = Some db \<and> db a = Hit cd
                \<longrightarrow> db_country cd = None)"
      with g show "country (location r) = Val ''Unknown''" and "countryCode (location r) = Val ''XX''"
        by (simp_all add: default_location_def)
    }
    {
      assume "\<forall>db cd. ipCityDB dbs = Some db \<and> db a = Hit cd
                \<longrightarrow> subdivisions cd = None \<or> subdivisions cd = Some []"
      with g show "region (location r) = Val ''Unknown''"
        by (simp add: default_location_def)
    }
    {
      assume "\<forall>db cd. ipCityDB dbs = Some db \<and> db a = Hit cd \<longrightarrow> db_city cd = None"
      with g show "city (location r) = Val ''Unknown''"
        by (simp add: default_location_def)
    }
    {
      assume "\<forall>db cd. ipCityDB dbs = Some db \<and> db a = Hit cd \<longrightarrow> db_postal cd = None"
      with g show "zipCode (location r) = Val ''Unknown''"
        by (simp add: default_location_def)
    }
    {
      assume "\<forall>db cd. ipCityDB dbs = Some db \<and> db a = Hit cd \<longrightarrow> db_location cd = None"
      with g show "coordinates (location r) = \<lparr>latitude = Null, longitude = Null\<rparr>"
        and "timezone (location r) = Val ''Unknown''"
        by (simp_all add: default_location_def)
    }
    {
      assume "\<forall>db. ipAsnDB dbs = Some db \<longrightarrow> db a = Miss"
      moreover note net
      ultimately show "network r = default_network"
        by (rule network_default [rotated])
    }
    qed
    have copied: "(\<forall>db cityData. ipCityDB dbs = Some db \<and> db a = Hit cityData \<longrightarrow>
            (\<forall>c. db_country cityData = Some c \<longrightarrow>
              (\<exists>n. names c = Some n \<and> country (location r) = get_prop (n ''en'')
                 \<and> countryCode (location r) = get_prop (iso_code c)))
          \<and> (\<forall>s rest. subdivisions cityData = Some (s # rest) \<longrightarrow>
              (\<exists>n. names s = Some n \<and> region (location r) = get_prop (n ''en'')))
          \<and> (\<forall>c. db_city cityData = Some c \<longrightarrow>
              (\<exists>n. names c = Some n \<and> city (location r) = get_prop (n ''en'')))
          \<and> (\<forall>p. db_postal cityData = Some p \<longrightarrow>
              zipCode (location r) = get_prop (code p))
          \<and> (\<forall>l. db_location cityData = Some l \<longrightarrow>
              coordinates (location r)
                = \<lparr>latitude = get_prop (db_latitude l), longitude = get_prop (db_longitude l)\<rparr>
            \<and> timezone (location r) = get_prop (time_zone l)))
        \<and> (\<forall>db countryData c. ipCityDB dbs = None \<and> ipCountryDB dbs = Some db
              \<and> db a = Hit countryData \<and> db_country countryData = Some c \<longrightarrow>
              (\<exists>n. names c = Some n \<and> country (location r) = get_prop (n ''en'')
                 \<and> countryCode (location r) = get_prop (iso_code c)))"
      by (rule location_copies [OF loc])
    have copied_network: "\<forall>db asnData. ipAsnDB dbs = Some db \<and> db a = Hit asnData \<longrightarrow>
             isp (network r) = get_prop (autonomous_system_organization asnData)
           \<and> organization (network r) = get_prop (autonomous_system_organization asnData)
           \<and> asn (network r) = get_prop (autonomous_system_number asnData)
           \<and> asName (network r)
               = Val (as_label (get_prop (autonomous_system_number asnData)))"
      by (rule network_copies [OF net])
    show "(http_status (fst (api_lookup dbs req)) = 200
        \<and> statusCode r = 200 \<and> status r = ''success'' \<and> ip r = a)
        \<and> (((\<forall>db cd. ipCityDB dbs = Some db \<and> db a = Hit cd \<longrightarrow> db_country cd = None)
          \<and> (\<forall>db cd. ipCityDB dbs = None \<and> ipCountryDB dbs = Some db \<and> db a = Hit cd
                \<longrightarrow> db_country cd = None)
          \<longrightarrow> country (location r) = Val ''Unknown'' \<and> countryCode (location r) = Val ''XX'')
        \<and> ((\<forall>db cd. ipCityDB dbs = Some db \<and> db a = Hit cd
                \<longrightarrow> subdivisions cd = None \<or> subdivisions cd = Some [])
          \<longrightarrow> region (location r) = Val ''Unknown'')
        \<and> ((\<forall>db cd. ipCityDB dbs = Some db \<and> db a = Hit cd \<longrightarrow> db_city cd = None)
          \<longrightarrow> city (location r) = Val ''Unknown'')
        \<and> ((\<forall>db cd. ipCityDB dbs = Some db \<and> db a = Hit cd \<longrightarrow> db_postal cd = None)
          \<longrightarrow> zipCode (location r) = Val ''Unknown'')
        \<and> ((\<forall>db cd. ipCityDB dbs = Some db \<and> db a = Hit cd \<longrightarrow> db_location cd = None)
          \<longrightarrow> coordinates (location r) = \<lparr>latitude = Null, longitude = Null\<rparr>
            \<and> timezone (location r) = Val ''Unknown'')
        \<and> ((\<forall>db. ipAsnDB dbs = Some db \<longrightarrow> db a = Miss)
          \<longrightarrow> network r = default_network))
        \<and> ((\<forall>db cityData. ipCityDB dbs = Some db \<and> db a = Hit cityData \<longrightarrow>
            (\<forall>c. db_country cityData = Some c \<longrightarrow>
              (\<exists>n. names c = Some n \<and> country (location r) = get_prop (n ''en'')
                 \<and> countryCode (location r) = get_prop (iso_code c)))
          \<and> (\<forall>s rest. subdivisions cityData = Some (s # rest) \<longrightarrow>
              (\<exists>n. names s = Some n \<and> region (location r) = get_prop (n ''en'')))
          \<and> (\<forall>c. db_city cityData = Some c \<longrightarrow>
              (\<exists>n. names c = Some n \<and> city (location r) = get_prop (n ''en'')))
          \<and> (\<forall>p. db_postal cityData = Some p \<longrightarrow>
              zipCode (location r) = get_prop (code p))
          \<and> (\<forall>l. db_location cityData = Some l \<longrightarrow>
              coordinates (location r)
                = \<lparr>latitude = get_prop (db_latitude l), longitude = get_prop (db_longitude l)\<rparr>
            \<and> timezone (location r) = get_prop (time_zone l)))
        \<and> (\<forall>db countryData c. ipCityDB dbs = None \<and> ipCountryDB dbs = Some db
              \<and> db a = Hit countryData \<and> db_country countryData = Some c \<longrightarrow>
              (\<exists>n. names c = Some n \<and> country (location r) = get_prop (n ''en'')
                 \<and> countryCode (location r) = get_prop (iso_code c))))
        \<and> (\<forall>db asnData. ipAsnDB dbs = Some db \<and> db a = Hit asnData \<longrightarrow>
             isp (network r) = get_prop (autonomous_system_organization asnData)
           \<and> organization (network r) = get_prop (autonomous_system_organization asnData)
           \<and> asn (network r) = get_prop (autonomous_system_number asnData)
           \<and> asName (network r)
               = Val (as_label (get_prop (autonomous_system_number asnData))))"
      by (rule conjI [OF head conjI [OF defaults conjI [OF copied copied_network]]])
  qed
  show "(ipCityDB dbs \<noteq> None \<or> ipCountryDB dbs \<noteq> None \<or> ipAsnDB dbs \<noteq> None)
      \<and> (\<forall>db. ipCityDB dbs = Some db \<longrightarrow> db a = Miss)
      \<and> (\<forall>db. ipCountryDB dbs = Some db \<longrightarrow> db a = Miss)
      \<and> (\<forall>db. ipAsnDB dbs = Some db \<longrightarrow> db a = Miss)
      \<longrightarrow> fst (api_lookup dbs req) = ok (default_result a)"
  proof
    assume "(ipCityDB dbs \<noteq> None \<or> ipCountryDB dbs \<noteq> None \<or> ipAsnDB dbs \<noteq> None)
      \<and> (\<forall>db. ipCityDB dbs = Some db \<longrightarrow> db a = Miss)
      \<and> (\<forall>db. ipCountryDB dbs = Some db \<longrightarrow> db a = Miss)
      \<and> (\<forall>db. ipAsnDB dbs = Some db \<longrightarrow> db a = Miss)"
    with assms show "fst (api_lookup dbs req) = ok (default_result a)"
      by (cases "ipCityDB dbs"; cases "ipCountryDB dbs"; cases "ipAsnDB dbs")
        (simp_all add: lookup_defs)
  qed
qed

theorem defaults_per_group_witness:
  "ipToLookup \<lparr>params_ip = Some ''8.8.8.8'', req_ip = None\<rparr> = Inr ''8.8.8.8''
   \<and> isValidIPv4 ''8.8.8.8''
   \<and> fst (api_lookup
        (\<lparr>ipCountryDB = None, ipCityDB = Some (\<lambda>a. Miss),
          ipAsnDB = Some (\<lambda>a. Miss)\<rparr> :: int databases)
        \<lparr>params_ip = Some ''8.8.8.8'', req_ip = None\<rparr>)
     = ok (default_result ''8.8.8.8'')
   \<and> api_lookup
        (\<lparr>ipCountryDB = None, ipCityDB = Some (\<lambda>a. Hit \<lparr>db_country = None, subdivisions = None, db_city = Some \<lparr>names = Some [''en'' \<mapsto> ''Mountain View''], iso_code = None\<rparr>, db_postal = None, db_location = None\<rparr>),
          ipAsnDB = None\<rparr> :: int databases)
        \<lparr>params_ip = Some ''8.8.8.8'', req_ip = None\<rparr>
     = (ok ((default_result ''8.8.8.8'') \<lparr>location := default_location \<lparr>city := Val ''Mountain View''\<rparr>\<rparr>), [City])
   \<and> http_status (fst (api_lookup
        (\<lparr>ipCountryDB = None, ipCityDB = Some (\<lambda>a. Hit \<lparr>db_country = None, subdivisions = None, db_city = Some \<lparr>names = Some [''en'' \<mapsto> ''Mountain View''], iso_code = None\<rparr>, db_postal = None, db_location = None\<rparr>),
          ipAsnDB = None\<rparr> :: int databases)
        \<lparr>params_ip = Some ''8.8.8.8'', req_ip = None\<rparr>)) = 200
   \<and> zipCode (location (((default_result ''8.8.8.8'') \<lparr>location := default_location \<lparr>city := Val ''Mountain View''\<rparr>\<rparr>) :: int result)) = Val ''Unknown''
   \<and> city (location (((default_result ''8.8.8.8'') \<lparr>location := default_location \<lparr>city := Val ''Mountain View''\<rparr>\<rparr>) :: int result)) = Val ''Mountain View''"
proof -
  have v: "isValidIPv4 ''8.8.8.8''"
    by code_simp
  have i: "ipToLookup \<lparr>params_ip = Some ''8.8.8.8'', req_ip = None\<rparr> = Inr ''8.8.8.8''"
    by (simp add: ipToLookup_def)
  note t = defaults_per_group [OF i v]
  have e6: "api_lookup
        (\<lparr>ipCountryDB = None, ipCityDB = Some (\<lambda>a. Hit \<lparr>db_country = None, subdivisions = None, db_city = Some \<lparr>names = Some [''en'' \<mapsto> ''Mountain View''], iso_code = None\<rparr>, db_postal = None, db_location = None\<rparr>),
          ipAsnDB = None\<rparr> :: int databases)
        \<lparr>params_ip = Some ''8.8.8.8'', req_ip = None\<rparr>
     = (ok ((default_result ''8.8.8.8'') \<lparr>location := default_location \<lparr>city := Val ''Mountain View''\<rparr>\<rparr>), [City])"
    using v i
    by (simp add: api_lookup_def lookup_location_def lookup_network_def default_result_def
          from_city_def)
  have m: "fst (api_lookup
        (\<lparr>ipCountryDB = None, ipCityDB = Some (\<lambda>a. Miss),
          ipAsnDB = Some (\<lambda>a. Miss)\<rparr> :: int databases)
        \<lparr>params_ip = Some ''8.8.8.8'', req_ip = None\<rparr>)
     = ok (default_result ''8.8.8.8'')"
    by (rule t [THEN conjunct2, THEN mp]) simp
  have b6: "body (fst (api_lookup
        (\<lparr>ipCountryDB = None, ipCityDB = Some (\<lambda>a. Hit \<lparr>db_country = None, subdivisions = None, db_city = Some \<lparr>names = Some [''en'' \<mapsto> ''Mountain View''], iso_code = None\<rparr>, db_postal = None, db_location = None\<rparr>),
          ipAsnDB = None\<rparr> :: int databases)
        \<lparr>params_ip = Some ''8.8.8.8'', req_ip = None\<rparr>))
      = Success ((default_result ''8.8.8.8'') \<lparr>location := default_location \<lparr>city := Val ''Mountain View''\<rparr>\<rparr>)"
    using e6 by (simp add: ok_def)
  note g = t [of "(\<lparr>ipCountryDB = None, ipCityDB = Some (\<lambda>a. Hit \<lparr>db_country = None, subdivisions = None, db_city = Some \<lparr>names = Some [''en'' \<mapsto> ''Mountain View''], iso_code = None\<rparr>, db_postal = None, db_location = None\<rparr>),
          ipAsnDB = None\<rparr> :: int databases)", THEN conjunct1,
      THEN spec [where x = "((default_result ''8.8.8.8'') \<lparr>location := default_location \<lparr>city := Val ''Mountain View''\<rparr>\<rparr>)"], THEN mp, OF b6]
  have h: "http_status (fst (api_lookup
        (\<lparr>ipCountryDB = None, ipCityDB = Some (\<lambda>a. Hit \<lparr>db_country = None, subdivisions = None, db_city = Some \<lparr>names = Some [''en'' \<mapsto> ''Mountain View''], iso_code = None\<rparr>, db_postal = None, db_location = None\<rparr>),
          ipAsnDB = None\<rparr> :: int databases)
        \<lparr>params_ip = Some ''8.8.8.8'', req_ip = None\<rparr>)) = 200"
    by (rule g [THEN conjunct1, THEN conjunct1])
  have z: "zipCode (location (((default_result ''8.8.8.8'') \<lparr>location := default_location \<lparr>city := Val ''Mountain View''\<rparr>\<rparr>) :: int result)) = Val ''Unknown''"
    by (rule g [THEN conjunct2, THEN conjunct1, THEN conjunct2, THEN conjunct2,
          THEN conjunct2, THEN conjunct1, THEN mp]) simp
  have "\<exists>n. names \<lparr>names = Some [''en'' \<mapsto> ''Mountain View''], iso_code = None\<rparr> = Some n
      \<and> city (location (((default_result ''8.8.8.8'') \<lparr>location := default_location \<lparr>city := Val ''Mountain View''\<rparr>\<rparr>) :: int result)) = get_prop (n ''en'')"
    by (rule g [THEN conjunct2, THEN conjunct2, THEN conjunct1, THEN conjunct1,
          THEN spec [where x = "\<lambda>a. Hit \<lparr>db_country = None, subdivisions = None, db_city = Some \<lparr>names = Some [''en'' \<mapsto> ''Mountain View''], iso_code = None\<rparr>, db_postal = None, db_location = None\<rparr>"],
          THEN spec [where x = "\<lparr>db_country = None, subdivisions = None, db_city = Some \<lparr>names = Some [''en'' \<mapsto> ''Mountain View''], iso_code = None\<rparr>, db_postal = None, db_location = None\<rparr>"], THEN mp,
          THEN conjunct2, THEN conjunct2, THEN conjunct1,
          THEN spec [where x = "\<lparr>names = Some [''en'' \<mapsto> ''Mountain View''], iso_code = None\<rparr>"], THEN mp]) simp_all
  then have c: "city (location (((default_result ''8.8.8.8'') \<lparr>location := default_location \<lparr>city := Val ''Mountain View''\<rparr>\<rparr>) :: int result)) = Val ''Mountain View''"
    by auto
  from i v e6 m h z c show ?thesis
    by simp
qed

section \<open>Properties of the validator\<close>

text \<open>
  C2. For every input string that is not in dotted-quad syntax (four dot-separated
  octets, each a decimal numeral from 0 to 255), the lookup endpoint answers with
  status 400 and the validation message, and queries no reader.
\<close>

theorem invalid_syntax_rejected:
  assumes "ipToLookup req = Inr addr" and "\<not> strict_dotted_quad addr"
  shows "api_lookup dbs req = (invalid_ip, [])
     \<and> http_status (fst (api_lookup dbs req)) = 400"
proof -
  from assms(2) have "\<not> isValidIPv4 addr"
    using isValidIPv4_strict by blast
  with assms(1) show ?thesis
    by (simp add: api_lookup_def invalid_ip_def)
qed

theorem invalid_syntax_rejected_witness:
  "ipToLookup \<lparr>params_ip = Some ''999.1.1.1'', req_ip = None\<rparr> = Inr ''999.1.1.1''
   \<and> \<not> strict_dotted_quad ''999.1.1.1''
   \<and> api_lookup
        (\<lparr>ipCountryDB = None, ipCityDB = Some (\<lambda>a. Miss), ipAsnDB = None\<rparr> :: int databases)
        \<lparr>params_ip = Some ''999.1.1.1'', req_ip = None\<rparr> = (invalid_ip, [])
   \<and> http_status (invalid_ip :: int response) = 400"
proof -
  have i: "ipToLookup \<lparr>params_ip = Some ''999.1.1.1'', req_ip = None\<rparr> = Inr ''999.1.1.1''"
    by (simp add: ipToLookup_def)
  have n: "\<not> strict_dotted_quad ''999.1.1.1''"
    by code_simp
  from i n invalid_syntax_rejected [OF i n,
      of "\<lparr>ipCountryDB = None, ipCityDB = Some (\<lambda>a. Miss), ipAsnDB = None\<rparr> :: int databases"]
  show ?thesis
    by (simp add: invalid_ip_def)
qed

text \<open>
  C9. The validator accepts octets written with leading zeros: every string of four
  dot-separated components, each of one to three digits with a value from 0 to 255,
  such as \<^verbatim>\<open>010.001.002.003\<close>, passes validation; the endpoint does not answer 400 and,
  when a reader is loaded, goes on to query one.
\<close>

theorem leading_zeros_accepted:
  assumes "split_on CHR ''.'' s = [a, b, c, d]"
    and "octet_0_255 a \<and> length a \<le> 3" and "octet_0_255 b \<and> length b \<le> 3"
    and "octet_0_255 c \<and> length c \<le> 3" and "octet_0_255 d \<and> length d \<le> 3"
    and "ipToLookup req = Inr s"
  shows "isValidIPv4 s
     \<and> http_status (fst (api_lookup dbs req)) \<noteq> 400
     \<and> (ipCityDB dbs \<noteq> None \<or> ipCountryDB dbs \<noteq> None \<or> ipAsnDB dbs \<noteq> None
          \<longrightarrow> snd (api_lookup dbs req) \<noteq> [])"
proof (intro conjI impI)
  from assms(1-5) show v: "isValidIPv4 s"
    unfolding isValidIPv4_iff by blast
  from v assms(6) show "http_status (fst (api_lookup dbs req)) \<noteq> 400"
    by (auto simp: api_lookup_def ok_def server_error_def unavailable_def
        split: prod.splits sum.splits)
  assume loaded: "ipCityDB dbs \<noteq> None \<or> ipCountryDB dbs \<noteq> None \<or> ipAsnDB dbs \<noteq> None"
  note q = queries_of_lookup [OF assms(6) v loaded]
  show "snd (api_lookup dbs req) \<noteq> []"
  proof (cases "ipCityDB dbs = None \<and> ipCountryDB dbs = None")
    case True
    with loaded have "ipAsnDB dbs \<noteq> None"
      by simp
    moreover from True have "fst (lookup_location dbs s default_location) = Inr default_location"
      by (simp add: location_miss(3))
    ultimately show ?thesis
      by (simp add: q network_queries)
  next
    case False
    then show ?thesis
      by (auto simp: q location_queries)
  qed
qed

theorem leading_zeros_accepted_witness:
  "split_on CHR ''.'' ''010.001.002.003'' = [''010'', ''001'', ''002'', ''003'']
   \<and> octet_0_255 ''010'' \<and> octet_0_255 ''001'' \<and> octet_0_255 ''002'' \<and> octet_0_255 ''003''
   \<and> ipToLookup \<lparr>params_ip = Some ''010.001.002.003'', req_ip = None\<rparr>
       = Inr ''010.001.002.003''
   \<and> isValidIPv4 ''010.001.002.003''
   \<and> api_lookup
        (\<lparr>ipCountryDB = None, ipCityDB = Some (\<lambda>a. Miss), ipAsnDB = None\<rparr> :: int databases)
        \<lparr>params_ip = Some ''010.001.002.003'', req_ip = None\<rparr>
       = (ok (default_result ''010.001.002.003''), [City])"
proof -
  have sp: "split_on CHR ''.'' ''010.001.002.003'' = [''010'', ''001'', ''002'', ''003'']"
    by simp
  have o: "octet_0_255 ''010'' \<and> length ''010'' \<le> 3" "octet_0_255 ''001'' \<and> length ''001'' \<le> 3"
    "octet_0_255 ''002'' \<and> length ''002'' \<le> 3" "octet_0_255 ''003'' \<and> length ''003'' \<le> 3"
    by (simp_all add: octet_0_255_def is_digit_def decimal_value_def digit_value_def)
  have i: "ipToLookup \<lparr>params_ip = Some ''010.001.002.003'', req_ip = None\<rparr>
       = Inr ''010.001.002.003''"
    by (simp add: ipToLookup_def)
  have v: "isValidIPv4 ''010.001.002.003''"
    by (rule leading_zeros_accepted [OF sp o i, THEN conjunct1])
  have e: "api_lookup
        (\<lparr>ipCountryDB = None, ipCityDB = Some (\<lambda>a. Miss), ipAsnDB = None\<rparr> :: int databases)
        \<lparr>params_ip = Some ''010.001.002.003'', req_ip = None\<rparr>
       = (ok (default_result ''010.001.002.003''), [City])"
    using v i
    by (simp add: api_lookup_def lookup_location_def lookup_network_def default_result_def)
  from sp o i v e show ?thesis
    by simp
qed

section \<open>Auxiliary facts about the refresh job\<close>

lemma findMmdbFile_first:
  "findMmdbFile dir es = (case mmdb_files dir es of [] \<Rightarrow> None | p # ps \<Rightarrow> Some p)"
  by (induction dir es rule: findMmdbFile.induct) (auto split: list.splits option.splits)

lemma findMmdbFile_below:
  "findMmdbFile dir es = Some p \<Longrightarrow> \<exists>n rest. p = dir @ n # rest \<and> n \<in> fst ` set es"
proof (induction dir es rule: findMmdbFile.induct)
  case (2 dir item sub items)
  show ?case
  proof (cases "findMmdbFile (dir @ [item]) sub")
    case None
    with 2 show ?thesis by auto
  next
    case (Some q)
    with 2 have "p = q" by simp
    with 2(1) [OF Some [unfolded \<open>p = q\<close> [symmetric]]] show ?thesis by auto
  qed
next
  case (3 dir item content items)
  then show ?case by (auto split: if_splits)
qed simp

lemma resolve_skip:
  "n \<noteq> fst e \<Longrightarrow> resolve (e # es) (n # rest) = resolve es (n # rest)"
  by (cases e; cases rest) auto

lemma findMmdbFile_resolves:
  "distinct_names es \<Longrightarrow> findMmdbFile dir es = Some p \<Longrightarrow>
     \<exists>content. resolve es (drop (length dir) p) = Some (File content)"
proof (induction dir es arbitrary: p rule: findMmdbFile.induct)
  case (1 dir)
  then show ?case by simp
next
  case (2 dir item sub items)
  show ?case
  proof (cases "findMmdbFile (dir @ [item]) sub")
    case None
    with 2 have f: "findMmdbFile dir items = Some p" and d: "distinct_names items"
      and i: "item \<notin> fst ` set items"
      by auto
    from findMmdbFile_below [OF f] obtain n rest where p: "p = dir @ n # rest" and n: "n \<in> fst ` set items"
      by blast
    from n i have "n \<noteq> item" by auto
    moreover from "2.IH"(2) [OF None d f] obtain c where "resolve items (drop (length dir) p) = Some (File c)"
      by blast
    ultimately show ?thesis
      using p by (simp add: resolve_skip)
  next
    case (Some q)
    with 2 have pq: "p = q" and d: "distinct_names sub" by auto
    from Some pq have f: "findMmdbFile (dir @ [item]) sub = Some p" by simp
    from "2.IH"(1) [OF d f] obtain c where r: "resolve sub (drop (length (dir @ [item])) p) = Some (File c)"
      by blast
    from findMmdbFile_below [OF f] obtain n rest where p: "p = (dir @ [item]) @ n # rest"
      by blast
    with r show ?thesis by simp
  qed
next
  case (3 dir item content items)
  show ?case
  proof (cases "suffix ''.mmdb'' item")
    case True
    with 3 show ?thesis by auto
  next
    case False
    with 3 have f: "findMmdbFile dir items = Some p" and d: "distinct_names items"
      and i: "item \<notin> fst ` set items"
      by auto
    from findMmdbFile_below [OF f] obtain n rest where p: "p = dir @ n # rest" and n: "n \<in> fst ` set items"
      by blast
    from n i have "n \<noteq> item" by auto
    moreover from "3.IH" [OF False d f] obtain c where "resolve items (drop (length dir) p) = Some (File c)"
      by blast
    ultimately show ?thesis
      using p by (simp add: resolve_skip)
  qed
qed

lemma names_distinct:
  "tempFile type \<noteq> tempDir type" "destPath type \<noteq> tempFile type" "destPath type \<noteq> tempDir type"
proof -
  have c: "length (capitalize type) = length type"
    by (cases type) simp_all
  have "length (tempFile type) \<noteq> length (tempDir type)"
    by (simp add: tempFile_def tempDir_def)
  then show "tempFile type \<noteq> tempDir type" by metis
  have "length (destPath type) \<noteq> length (tempFile type)"
    by (simp add: tempFile_def destPath_def c)
  then show "destPath type \<noteq> tempFile type" by metis
  have "length (destPath type) \<noteq> length (tempDir type)"
    by (simp add: tempDir_def destPath_def c)
  then show "destPath type \<noteq> tempDir type" by metis
qed


lemma publish_none:
  assumes "findMmdbFile [tempDir type] es = None" and "fs (tempFile type) = Some (File a)"
  shows "publish_and_clean type es fs = (Caught MmdbNotFound, fs(tempFile type := None))"
  using assms by (simp add: publish_and_clean_def catch_block_def)

lemma publish_some:
  assumes "findMmdbFile [tempDir type] es = Some p" and "resolve es (tl p) = Some (File c)"
    and "\<forall>d. fs (destPath type) \<noteq> Some (Dir d)" and "fs (tempFile type) = Some (File a)"
  shows "publish_and_clean type es fs =
     (Updated, ((fs(destPath type \<mapsto> File c))(tempFile type := None))(tempDir type := None))"
proof -
  have "(fs(destPath type \<mapsto> File c)) (tempFile type) = Some (File a)"
    using assms(4) names_distinct(2) [of type] by simp
  with assms(1-3) show ?thesis
    by (cases "fs (destPath type)")
      (auto simp: publish_and_clean_def Let_def split: fsnode.splits)
qed

lemma job_extracted:
  assumes "\<forall>d. fs (tempFile type) \<noteq> Some (Dir d)"
    and "fs (tempDir type) = None \<and> es = [] \<or> fs (tempDir type) = Some (Dir es)"
    and "untar archive es = (True, es')"
  shows "downloadAndExtractDatabase type (Some archive) untar fs =
     publish_and_clean type es' ((fs(tempFile type \<mapsto> File archive))(tempDir type \<mapsto> Dir es'))"
proof -
  let ?fs1 = "fs(tempFile type \<mapsto> File archive)"
  let ?fs2 = "if ?fs1 (tempDir type) = None then ?fs1(tempDir type \<mapsto> Dir []) else ?fs1"
  have t: "?fs1 (tempDir type) = fs (tempDir type)"
    using names_distinct(1) [of type] by simp
  have d: "?fs2 (tempDir type) = Some (Dir es)"
    using assms(2) t by auto
  have u: "?fs2(tempDir type \<mapsto> Dir es') = ?fs1(tempDir type \<mapsto> Dir es')"
    by simp
  have "downloadAndExtractDatabase type (Some archive) untar fs =
      publish_and_clean type es' (?fs2(tempDir type \<mapsto> Dir es'))"
    using assms(1,3) d
    by (cases "fs (tempFile type)")
      (auto simp: downloadAndExtractDatabase_def Let_def split: fsnode.splits)
  with u show ?thesis
    by simp
qed

lemma catch_block_not_Updated: "fst (catch_block type e fs) \<noteq> Updated"
  by (simp add: catch_block_def split: option.splits fsnode.splits)

lemma publish_Updated:
  assumes "fst (publish_and_clean type es fs) = Updated"
  shows "snd (publish_and_clean type es fs) (tempFile type) = None
     \<and> snd (publish_and_clean type es fs) (tempDir type) = None"
  using assms names_distinct(1) [of type] catch_block_not_Updated [of type]
  by (auto simp: publish_and_clean_def Let_def split: option.splits fsnode.splits)

lemma updated_cleans_both:
  assumes "fst (downloadAndExtractDatabase type response untar fs) = Updated"
  shows "snd (downloadAndExtractDatabase type response untar fs) (tempFile type) = None
     \<and> snd (downloadAndExtractDatabase type response untar fs) (tempDir type) = None"
  using assms catch_block_not_Updated [of type] publish_Updated [of type]
  by (auto simp: downloadAndExtractDatabase_def Let_def
      split: option.splits fsnode.splits prod.splits bool.splits if_splits)

section \<open>Properties of the refresh job\<close>

text \<open>
  C7. The claim: whether the job succeeds or fails, the downloaded archive and the
  scratch directory are both deleted before it completes. The success path does so
  (\<open>updated_cleans_both\<close>), the \<^verbatim>\<open>catch\<close> block unlinks the archive only. Here the
  archive extracts to a tree without a payload file: the job logs the error, the
  archive is gone and the scratch directory \<^verbatim>\<open>temp_city\<close> is still there.
\<close>

theorem scratch_dir_left_behind:
  "tempFile ''city'' = ''city.tar.gz'' \<and> tempDir ''city'' = ''temp_city''
   \<and> fst (downloadAndExtractDatabase ''city'' (Some ''archive'')
        (\<lambda>archive es. (True, [(''README.txt'', File ''readme'')])) Map.empty) = Caught MmdbNotFound
   \<and> snd (downloadAndExtractDatabase ''city'' (Some ''archive'')
        (\<lambda>archive es. (True, [(''README.txt'', File ''readme'')])) Map.empty) ''city.tar.gz'' = None
   \<and> snd (downloadAndExtractDatabase ''city'' (Some ''archive'')
        (\<lambda>archive es. (True, [(''README.txt'', File ''readme'')])) Map.empty) ''temp_city''
       = Some (Dir [(''README.txt'', File ''readme'')])"
  by (simp add: downloadAndExtractDatabase_def publish_and_clean_def catch_block_def
        tempFile_def tempDir_def Let_def suffix_def)

text \<open>
  C8, as the code has it. The search returns at the first match and checks nothing
  more: with two payload files in the extracted tree the job succeeds and publishes
  the first.
\<close>

theorem two_matches_counterexample:
  "mmdb_files [tempDir ''city'']
       [(''GeoLite2-City_1'', Dir [(''a.mmdb'', File ''A''), (''b.mmdb'', File ''B'')])]
     = [[''temp_city'', ''GeoLite2-City_1'', ''a.mmdb''],
        [''temp_city'', ''GeoLite2-City_1'', ''b.mmdb'']]
   \<and> fst (downloadAndExtractDatabase ''city'' (Some ''archive'')
        (\<lambda>archive es. (True, [(''GeoLite2-City_1'', Dir [(''a.mmdb'', File ''A''), (''b.mmdb'', File ''B'')])])) Map.empty) = Updated
   \<and> snd (downloadAndExtractDatabase ''city'' (Some ''archive'')
        (\<lambda>archive es. (True, [(''GeoLite2-City_1'', Dir [(''a.mmdb'', File ''A''), (''b.mmdb'', File ''B'')])])) Map.empty) (destPath ''city'') = Some (File ''A'')"
  by (simp add: downloadAndExtractDatabase_def publish_and_clean_def catch_block_def
        tempFile_def tempDir_def destPath_def toUpperCase_def Let_def suffix_def)

text \<open>
  C8, amended. The search returns the first payload file in walk order (a directory
  is searched before the entries after it), however many there are. After a
  successful extraction: when there is no payload file the job fails with the
  not-found error and the destination file is what it was; when there is at least
  one, the first one is copied to the destination and the job succeeds.
\<close>

theorem first_match_published:
  assumes "\<forall>d. fs (tempFile type) \<noteq> Some (Dir d)"
    and "fs (tempDir type) = None \<and> es = [] \<or> fs (tempDir type) = Some (Dir es)"
    and "untar archive es = (True, es')"
  shows "(mmdb_files [tempDir type] es' = [] \<longrightarrow>
            fst (downloadAndExtractDatabase type (Some archive) untar fs) = Caught MmdbNotFound
          \<and> snd (downloadAndExtractDatabase type (Some archive) untar fs) (destPath type)
              = fs (destPath type))
     \<and> (\<forall>p ps. mmdb_files [tempDir type] es' = p # ps \<and> distinct_names es'
            \<and> (\<forall>d. fs (destPath type) \<noteq> Some (Dir d)) \<longrightarrow>
            findMmdbFile [tempDir type] es' = Some p
          \<and> fst (downloadAndExtractDatabase type (Some archive) untar fs) = Updated
          \<and> (\<exists>content. resolve es' (tl p) = Some (File content)
               \<and> snd (downloadAndExtractDatabase type (Some archive) untar fs) (destPath type)
                   = Some (File content)))"
proof (intro conjI allI impI)
  let ?fs3 = "(fs(tempFile type \<mapsto> File archive))(tempDir type \<mapsto> Dir es')"
  note job = job_extracted [of fs type es untar archive es', OF assms]
  have a: "?fs3 (tempFile type) = Some (File archive)"
    using names_distinct(1) [of type] by simp
  have dst: "?fs3 (destPath type) = fs (destPath type)"
    using names_distinct(2,3) [of type] by simp
  {
    assume "mmdb_files [tempDir type] es' = []"
    then have "findMmdbFile [tempDir type] es' = None"
      by (simp add: findMmdbFile_first)
    from publish_none [where fs = ?fs3, OF this a] job
    have r: "downloadAndExtractDatabase type (Some archive) untar fs
        = (Caught MmdbNotFound, ?fs3(tempFile type := None))"
      by simp
    then show "fst (downloadAndExtractDatabase type (Some archive) untar fs) = Caught MmdbNotFound"
      by simp
    from r names_distinct(2,3) [of type]
    show "snd (downloadAndExtractDatabase type (Some archive) untar fs) (destPath type)
        = fs (destPath type)"
      by simp
  }
  fix p ps
  assume h: "mmdb_files [tempDir type] es' = p # ps \<and> distinct_names es'
            \<and> (\<forall>d. fs (destPath type) \<noteq> Some (Dir d))"
  then have f: "findMmdbFile [tempDir type] es' = Some p"
    by (simp add: findMmdbFile_first)
  from h findMmdbFile_resolves [OF _ f] obtain c where c: "resolve es' (tl p) = Some (File c)"
    by (auto simp: drop_Suc)
  from h dst have nd: "\<forall>d. ?fs3 (destPath type) \<noteq> Some (Dir d)"
    by simp
  from publish_some [where fs = ?fs3, OF f c nd a] job
  have r: "downloadAndExtractDatabase type (Some archive) untar fs
      = (Updated, ((?fs3(destPath type \<mapsto> File c))(tempFile type := None))(tempDir type := None))"
    by simp
  from f show "findMmdbFile [tempDir type] es' = Some p" .
  from r show "fst (downloadAndExtractDatabase type (Some archive) untar fs) = Updated"
    by simp
  from r names_distinct(2,3) [of type]
  have "snd (downloadAndExtractDatabase type (Some archive) untar fs) (destPath type)
      = Some (File c)"
    by simp
  with c show "\<exists>content. resolve es' (tl p) = Some (File content)
      \<and> snd (downloadAndExtractDatabase type (Some archive) untar fs) (destPath type)
          = Some (File content)"
    by blast
qed

theorem first_match_published_witness:
  "(\<forall>d. (Map.empty :: data_dir) (tempFile ''city'') \<noteq> Some (Dir d))
   \<and> (Map.empty :: data_dir) (tempDir ''city'') = None
   \<and> (\<lambda>archive es. (True, [(''README.txt'', File ''readme'')])) ''archive'' [] = (True, [(''README.txt'', File ''readme'')])
   \<and> mmdb_files [tempDir ''city''] [(''README.txt'', File ''readme'')] = []
   \<and> fst (downloadAndExtractDatabase ''city'' (Some ''archive'')
        (\<lambda>archive es. (True, [(''README.txt'', File ''readme'')])) Map.empty) = Caught MmdbNotFound
   \<and> snd (downloadAndExtractDatabase ''city'' (Some ''archive'')
        (\<lambda>archive es. (True, [(''README.txt'', File ''readme'')])) Map.empty) (destPath ''city'') = None
   \<and> (\<lambda>archive es. (True, [(''GeoLite2-City_1'', Dir [(''a.mmdb'', File ''A''), (''b.mmdb'', File ''B'')])])) ''archive'' []
       = (True, [(''GeoLite2-City_1'', Dir [(''a.mmdb'', File ''A''), (''b.mmdb'', File ''B'')])])
   \<and> distinct_names [(''GeoLite2-City_1'', Dir [(''a.mmdb'', File ''A''), (''b.mmdb'', File ''B'')])]
   \<and> findMmdbFile [tempDir ''city'']
         [(''GeoLite2-City_1'', Dir [(''a.mmdb'', File ''A''), (''b.mmdb'', File ''B'')])]
       = Some [''temp_city'', ''GeoLite2-City_1'', ''a.mmdb'']
   \<and> fst (downloadAndExtractDatabase ''city'' (Some ''archive'')
        (\<lambda>archive es. (True, [(''GeoLite2-City_1'', Dir [(''a.mmdb'', File ''A''), (''b.mmdb'', File ''B'')])])) Map.empty) = Updated"
proof -
  have m1: "mmdb_files [tempDir ''city''] [(''README.txt'', File ''readme'')] = []"
    by (simp add: suffix_def)
  have m2: "mmdb_files [tempDir ''city'']
       [(''GeoLite2-City_1'', Dir [(''a.mmdb'', File ''A''), (''b.mmdb'', File ''B'')])]
     = [''temp_city'', ''GeoLite2-City_1'', ''a.mmdb'']
       # [[''temp_city'', ''GeoLite2-City_1'', ''b.mmdb'']]
     \<and> distinct_names [(''GeoLite2-City_1'', Dir [(''a.mmdb'', File ''A''), (''b.mmdb'', File ''B'')])]
     \<and> (\<forall>d. (Map.empty :: data_dir) (destPath ''city'') \<noteq> Some (Dir d))"
    by (simp add: suffix_def tempDir_def)
  note t1 = first_match_published [where fs = Map.empty and type = "''city''" and es = "[]"
      and archive = "''archive''" and untar = "(\<lambda>archive es. (True, [(''README.txt'', File ''readme'')]))"
      and es' = "[(''README.txt'', File ''readme'')]"]
  note t2 = first_match_published [where fs = Map.empty and type = "''city''" and es = "[]"
      and archive = "''archive''" and untar = "(\<lambda>archive es. (True, [(''GeoLite2-City_1'', Dir [(''a.mmdb'', File ''A''), (''b.mmdb'', File ''B'')])]))"
      and es' = "[(''GeoLite2-City_1'', Dir [(''a.mmdb'', File ''A''), (''b.mmdb'', File ''B'')])]"]
  have c1: "fst (downloadAndExtractDatabase ''city'' (Some ''archive'')
        (\<lambda>archive es. (True, [(''README.txt'', File ''readme'')])) Map.empty) = Caught MmdbNotFound
     \<and> snd (downloadAndExtractDatabase ''city'' (Some ''archive'')
        (\<lambda>archive es. (True, [(''README.txt'', File ''readme'')])) Map.empty) (destPath ''city'') = Map.empty (destPath ''city'')"
    by (rule t1 [THEN conjunct1, THEN mp, OF _ _ _ m1]) simp_all
  have c2: "findMmdbFile [tempDir ''city'']
         [(''GeoLite2-City_1'', Dir [(''a.mmdb'', File ''A''), (''b.mmdb'', File ''B'')])]
       = Some [''temp_city'', ''GeoLite2-City_1'', ''a.mmdb'']
     \<and> fst (downloadAndExtractDatabase ''city'' (Some ''archive'')
        (\<lambda>archive es. (True, [(''GeoLite2-City_1'', Dir [(''a.mmdb'', File ''A''), (''b.mmdb'', File ''B'')])])) Map.empty) = Updated"
    using t2 [THEN conjunct2, THEN spec, THEN spec, THEN mp, OF _ _ _ m2]
    by simp
  from m1 m2 c1 c2 show ?thesis
    by simp
qed

end
